theory Spec2Isabelle
  imports Main
begin

section \<open>Data model of the mirror store\<close>

text \<open>
  The records follow the rows that \<^verbatim>\<open>src/src/App.jsx\<close> inserts and updates.
  Wallet addresses are base-58 strings. A numeric column (\<^verbatim>\<open>gor_balance\<close>, the counters,
  \<^verbatim>\<open>count\<close>) holds the JavaScript number a client reads from it: a double. The model
  covers the integer-valued finite ones, written as the integer they denote; every amount
  that reaches a handler is of this kind (the tip dialog passes
  \<^verbatim>\<open>Math.max(1, parseInt(..) || 1)\<close>, the profile page passes 10, a ticket costs 1).
  The handlers compute on these numbers with the rounding arithmetic \<open>js_add\<close> and
  \<open>js_sub\<close> defined below; comparisons of doubles are exact. A number a handler writes
  is read back unchanged (the JSON text of a double parses to the same double).
  Array columns are lists and are never null, as in every row the application itself
  inserts; on such values the source's \<^verbatim>\<open>x || []\<close> and \<^verbatim>\<open>x || 0\<close> are the identity.
  The columns \<^verbatim>\<open>id\<close> of comments and notifications and \<^verbatim>\<open>created_at\<close> are filled in
  by the database and read by none of the handlers below; they are left out.
\<close>

type_synonym address = string
type_synonym post_id = nat

record ticket =
  t_wallet_address :: address
  count :: int
  t_username :: string

record wallet =
  w_wallet_address :: address
  gor_balance :: int
  tickets_holding :: "ticket list"

record profile =
  p_wallet_address :: address
  username :: string
  bio :: string
  followers :: "address list"
  following :: "address list"
  tickets_earned :: int
  blocked_users :: "address list"

record post =
  id_post :: post_id
  author_address :: address
  post_username :: string
  content :: string
  image_url :: "string option"
  likes :: "address list"
  reposts :: "address list"
  likes_count :: int
  reposts_count :: int
  comments_count :: int

record comment =
  c_post_id :: post_id
  c_author_address :: address
  c_username :: string
  c_content :: string

datatype ntype = Comment | Repost | Follow | Tip | Ticket_buy

record notification =
  recipient_address :: address
  n_type :: ntype
  message :: string
  n_post_id :: "post_id option"
  sender_address :: address
  read_flag :: bool

text \<open>The mirror store: one list of rows per table.\<close>

record store =
  profiles :: "profile list"
  wallets :: "wallet list"
  posts :: "post list"
  comments :: "comment list"
  notifications :: "notification list"

text \<open>
  The state of one connected client (the React state of \<^verbatim>\<open>App\<close> that the handlers
  read): the wallet adapter's \<^verbatim>\<open>publicKey\<close> and \<^verbatim>\<open>connected\<close>, and the cached copies
  \<^verbatim>\<open>currentUserProfile\<close> and \<^verbatim>\<open>walletData\<close> of the client's own profile and wallet rows.
\<close>

record client =
  publicKey :: "address option"
  connected :: bool
  currentUserProfile :: "profile option"
  walletData :: wallet

text \<open>A transfer instruction handed to \<^verbatim>\<open>sendTransaction\<close>.\<close>

record transfer =
  tr_source :: address
  tr_destination :: address
  tr_amount :: int

record world =
  db :: store
  cl :: client
  ledger_log :: "transfer list"

section \<open>Environment of one handler run\<close>

text \<open>
  A handler is an \<^verbatim>\<open>async\<close> function; its run is modelled as one uninterrupted sequence
  of requests against the store, from the world in which it starts to the world in which
  it ends. Writes of other clients between two requests of the same run are not modelled;
  what another client has written before the run starts is part of the starting store,
  and the acting client may or may not have refetched it into its cache.

  What the outside world answers during one run of a handler:
  \<^item> \<open>ledger\<close>: \<open>PrepareFailed\<close> when a step before \<^verbatim>\<open>sendTransaction\<close> throws (deriving
    the token accounts, fetching the block hash), \<open>Rejected\<close> when \<^verbatim>\<open>sendTransaction\<close>
    throws, \<open>Timeout\<close> when \<^verbatim>\<open>confirmTransaction\<close> throws, \<open>Confirmed\<close> otherwise (the
    handlers do not look at the value \<^verbatim>\<open>confirmTransaction\<close> returns).
  \<^item> \<open>fault k\<close>: the \<open>k\<close>-th mirror-store request of the handler (numbered from 0 in
    source order) comes back with an error and has had no effect on the store.
  \<^item> \<open>holding_default\<close>: the column default of \<^verbatim>\<open>wallets.tickets_holding\<close>, which the
    database gives a row created by the upsert of \<^verbatim>\<open>handleTip\<close>; the schema is not part
    of the repository, so the default is a parameter.
  \<^item> \<open>number_text\<close>: the text the JavaScript engine puts for a number in a template
    string (\<^verbatim>\<open>`${amount}`\<close>); it belongs to the engine, not to the repository, so it
    is a parameter too.
\<close>

datatype ledger_result = Confirmed | PrepareFailed | Rejected | Timeout

record env =
  ledger :: ledger_result
  fault :: "nat \<Rightarrow> bool"
  holding_default :: "ticket list"
  number_text :: "int \<Rightarrow> string"

text \<open>
  The message a handler ends with, by kind:
  \<open>NotConnected\<close> "Please connect your wallet first.",
  \<open>SelfTarget\<close> "You cannot ... yourself.",
  \<open>InsufficientBalance\<close> "Insufficient GOR balance ...",
  \<open>NonPositiveAmount\<close> "Tip amount must be positive.",
  \<open>NoTicketHeld\<close> "You don't hold any tickets for this user.",
  \<open>AlreadyReposted\<close>, \<open>AlreadyBlocked\<close>,
  \<open>FetchFailed\<close> the first read of a post failed,
  \<open>LedgerFailed\<close> and \<open>MirrorFailed\<close> the \<^verbatim>\<open>catch\<close> block (or an update's error branch),
  \<open>Ok\<close> the success message.
\<close>

datatype outcome =
    NotConnected | SelfTarget | InsufficientBalance | NonPositiveAmount | NoTicketHeld
  | AlreadyReposted | AlreadyBlocked | FetchFailed | LedgerFailed | MirrorFailed | Ok

section \<open>Mirror store gateway (the supabase-js calls the handlers make)\<close>

datatype db_error = NetworkError | PGRST116 | Conflict

text \<open>\<^verbatim>\<open>.single()\<close>: exactly one row, else the error PGRST116 (no row, or several).\<close>

definition single :: "'a list \<Rightarrow> db_error + 'a" where
  "single rows = (case rows of [r] \<Rightarrow> Inr r | _ \<Rightarrow> Inl PGRST116)"

text \<open>\<^verbatim>\<open>from(t).select(..).eq(col, v).single()\<close>\<close>

definition select_single :: "bool \<Rightarrow> ('a \<Rightarrow> bool) \<Rightarrow> 'a list \<Rightarrow> db_error + 'a" where
  "select_single failed p rows = (if failed then Inl NetworkError else single (filter p rows))"

text \<open>
  \<^verbatim>\<open>from(t).update(patch).eq(col, v)\<close>: the patch is applied to every row the filter
  selects; a filter that selects no row is not an error.
\<close>

definition update_rows :: "('a \<Rightarrow> bool) \<Rightarrow> ('a \<Rightarrow> 'a) \<Rightarrow> 'a list \<Rightarrow> 'a list" where
  "update_rows p patch rows = map (\<lambda>r. if p r then patch r else r) rows"

text \<open>
  \<^verbatim>\<open>from('wallets').upsert({wallet_address, gor_balance}, {onConflict: 'wallet_address'})\<close>:
  an existing row keeps its other columns; a new row takes their defaults.
\<close>

definition upsert_wallet :: "ticket list \<Rightarrow> address \<Rightarrow> int \<Rightarrow> wallet list \<Rightarrow> wallet list" where
  "upsert_wallet dflt a b rows =
     (if \<exists>r \<in> set rows. w_wallet_address r = a
      then update_rows (\<lambda>r. w_wallet_address r = a) (\<lambda>r. r\<lparr>gor_balance := b\<rparr>) rows
      else rows @ [\<lparr>w_wallet_address = a, gor_balance = b, tickets_holding = dflt\<rparr>])"

text \<open>\<^verbatim>\<open>from('wallets').insert(row)\<close>: the primary key \<^verbatim>\<open>wallet_address\<close> must be new.\<close>

definition insert_wallet :: "bool \<Rightarrow> wallet \<Rightarrow> wallet list \<Rightarrow> db_error + wallet list" where
  "insert_wallet failed row rows =
     (if failed then Inl NetworkError
      else if \<exists>r \<in> set rows. w_wallet_address r = w_wallet_address row then Inl Conflict
      else Inr (rows @ [row]))"

text \<open>
  \<^verbatim>\<open>await supabase.from('notifications').insert({...})\<close>: the handlers never look at
  the result, so a failed insert is swallowed.
\<close>

definition insert_notification :: "bool \<Rightarrow> notification \<Rightarrow> world \<Rightarrow> world" where
  "insert_notification failed n w =
     (if failed then w
      else w\<lparr>db := (db w)\<lparr>notifications := notifications (db w) @ [n]\<rparr>\<rparr>)"

definition set_posts :: "post list \<Rightarrow> world \<Rightarrow> world" where
  "set_posts ps w = w\<lparr>db := (db w)\<lparr>posts := ps\<rparr>\<rparr>"

definition set_wallets :: "wallet list \<Rightarrow> world \<Rightarrow> world" where
  "set_wallets ws w = w\<lparr>db := (db w)\<lparr>wallets := ws\<rparr>\<rparr>"

definition set_profiles :: "profile list \<Rightarrow> world \<Rightarrow> world" where
  "set_profiles ps w = w\<lparr>db := (db w)\<lparr>profiles := ps\<rparr>\<rparr>"

section \<open>Client helpers\<close>

text \<open>\<^verbatim>\<open>const currentWalletAddress = publicKey ? publicKey.toBase58() : null\<close>\<close>

definition currentWalletAddress :: "client \<Rightarrow> address option" where
  "currentWalletAddress c = publicKey c"

text \<open>\<^verbatim>\<open>currentUserProfile.username || 'Someone'\<close>\<close>

definition display_name :: "profile \<Rightarrow> string" where
  "display_name p = (if username p = [] then ''Someone'' else username p)"

text \<open>\<^verbatim>\<open>currentUserProfile.username || `User_${currentWalletAddress.substring(0, 8)}`\<close>\<close>

definition author_name :: "profile \<Rightarrow> address \<Rightarrow> string" where
  "author_name p a = (if username p = [] then ''User_'' @ take 8 a else username p)"

text \<open>\<^verbatim>\<open>Array.prototype.findIndex\<close>: the first index whose element satisfies the test.\<close>

fun findIndex :: "('a \<Rightarrow> bool) \<Rightarrow> 'a list \<Rightarrow> nat option" where
  "findIndex p [] = None"
| "findIndex p (x # xs) =
     (if p x then Some 0 else (case findIndex p xs of None \<Rightarrow> None | Some i \<Rightarrow> Some (Suc i)))"

text \<open>\<^verbatim>\<open>xs.splice(i, 1)\<close>\<close>

definition splice1 :: "nat \<Rightarrow> 'a list \<Rightarrow> 'a list" where
  "splice1 i xs = take i xs @ drop (Suc i) xs"

section \<open>JavaScript numbers\<close>

text \<open>
  \<^verbatim>\<open>a + b\<close> and \<^verbatim>\<open>a - b\<close> on doubles give the double nearest to the exact result,
  a tie going to the one with even significand. For integers: a number of at most 53
  binary digits is a double; one of \<open>53 + k\<close> digits is rounded to a multiple of \<open>2 ^ k\<close>.
  Up to magnitude \<open>2 ^ 53\<close> the arithmetic is therefore exact, beyond it is not:
  \<^verbatim>\<open>2 ** 53 + 1\<close> is \<^verbatim>\<open>2 ** 53\<close>. (A result of magnitude \<open>2 ^ 1024\<close> or more would be
  \<^verbatim>\<open>Infinity\<close>, which is outside the numbers modelled here.)
\<close>

fun bit_length :: "nat \<Rightarrow> nat" where
  "bit_length n = (if n = 0 then 0 else Suc (bit_length (n div 2)))"

declare bit_length.simps [simp del]

definition round_double :: "int \<Rightarrow> int" where
  "round_double x =
     (let n = nat \<bar>x\<bar>;
          m = 2 ^ (bit_length n - 53);
          q = n div m;
          r = n mod m;
          q' = (if 2 * r < m \<or> (2 * r = m \<and> even q) then q else q + 1)
      in sgn x * int (q' * m))"

definition js_add :: "int \<Rightarrow> int \<Rightarrow> int" where
  "js_add a b = round_double (a + b)"

definition js_sub :: "int \<Rightarrow> int \<Rightarrow> int" where
  "js_sub a b = round_double (a - b)"

section \<open>Social handlers\<close>

text \<open>
  \<^verbatim>\<open>handleLike(postId, isCurrentlyLiked)\<close>. The flag comes from the caller (the post
  component computes it from its cached copy of the post); the likes list and the counter
  are read from the store.
\<close>

definition handleLike :: "env \<Rightarrow> post_id \<Rightarrow> bool \<Rightarrow> world \<Rightarrow> outcome \<times> world" where
  "handleLike e postId isCurrentlyLiked w =
     (case currentWalletAddress (cl w) of
        None \<Rightarrow> (NotConnected, w)
      | Some me \<Rightarrow>
          (case select_single (fault e 0) (\<lambda>p. id_post p = postId) (posts (db w)) of
             Inl _ \<Rightarrow> (FetchFailed, w)
           | Inr postData \<Rightarrow>
               let updatedLikes =
                     (if isCurrentlyLiked then filter (\<lambda>addr. addr \<noteq> me) (likes postData)
                      else likes postData @ [me]);
                   newLikesCount =
                     (if isCurrentlyLiked then max 0 (js_sub (likes_count postData) 1)
                      else js_add (likes_count postData) 1)
               in if fault e 1 then (MirrorFailed, w)
                  else (Ok, set_posts
                          (update_rows (\<lambda>p. id_post p = postId)
                             (\<lambda>p. p\<lparr>likes := updatedLikes, likes_count := newLikesCount\<rparr>)
                             (posts (db w))) w)))"

text \<open>\<^verbatim>\<open>handleComment(postId, commentContent)\<close>\<close>

definition comment_message :: "profile \<Rightarrow> string \<Rightarrow> string" where
  "comment_message p commentContent =
     display_name p @ '' commented on your post: '' @ [CHR 0x22] @ take 30 commentContent
       @ ''...'' @ [CHR 0x22]"

definition handleComment :: "env \<Rightarrow> post_id \<Rightarrow> string \<Rightarrow> world \<Rightarrow> outcome \<times> world" where
  "handleComment e postId commentContent w =
     (case currentWalletAddress (cl w) of
        None \<Rightarrow> (NotConnected, w)
      | Some me \<Rightarrow>
     (case currentUserProfile (cl w) of
        None \<Rightarrow> (NotConnected, w)
      | Some prof \<Rightarrow>
          (case select_single (fault e 0) (\<lambda>p. id_post p = postId) (posts (db w)) of
             Inl _ \<Rightarrow> (FetchFailed, w)
           | Inr postData \<Rightarrow>
               if fault e 1 then (MirrorFailed, w)
               else
                 let w1 = w\<lparr>db := (db w)\<lparr>comments := comments (db w) @
                            [\<lparr>c_post_id = postId, c_author_address = me,
                              c_username = author_name prof me, c_content = commentContent\<rparr>]\<rparr>\<rparr>;
                     newCommentsCount = js_add (comments_count postData) 1;
                     w2 = (if fault e 2 then w1
                           else set_posts
                                  (update_rows (\<lambda>p. id_post p = postId)
                                     (\<lambda>p. p\<lparr>comments_count := newCommentsCount\<rparr>)
                                     (posts (db w1))) w1)
                 in if author_address postData \<noteq> me
                    then (Ok, insert_notification (fault e 3)
                                \<lparr>recipient_address = author_address postData, n_type = Comment,
                                  message = comment_message prof commentContent,
                                  n_post_id = Some postId, sender_address = me,
                                  read_flag = False\<rparr> w2)
                    else (Ok, w2))))"

text \<open>
  \<^verbatim>\<open>handleRepost(postId)\<close>. Membership is tested on the list just read from the store.
\<close>

definition handleRepost :: "env \<Rightarrow> post_id \<Rightarrow> world \<Rightarrow> outcome \<times> world" where
  "handleRepost e postId w =
     (case currentWalletAddress (cl w) of
        None \<Rightarrow> (NotConnected, w)
      | Some me \<Rightarrow>
     (case currentUserProfile (cl w) of
        None \<Rightarrow> (NotConnected, w)
      | Some prof \<Rightarrow>
          (case select_single (fault e 0) (\<lambda>p. id_post p = postId) (posts (db w)) of
             Inl _ \<Rightarrow> (FetchFailed, w)
           | Inr postData \<Rightarrow>
               if me \<notin> set (reposts postData) then
                 let updatedReposts = reposts postData @ [me];
                     newRepostsCount = js_add (reposts_count postData) 1
                 in if fault e 1 then (MirrorFailed, w)
                    else
                      let w1 = set_posts
                                 (update_rows (\<lambda>p. id_post p = postId)
                                    (\<lambda>p. p\<lparr>reposts := updatedReposts,
                                            reposts_count := newRepostsCount\<rparr>)
                                    (posts (db w))) w
                      in if author_address postData \<noteq> me
                         then (Ok, insert_notification (fault e 2)
                                     \<lparr>recipient_address = author_address postData,
                                       n_type = Repost,
                                       message = display_name prof @ '' reposted your post!'',
                                       n_post_id = Some postId, sender_address = me,
                                       read_flag = False\<rparr> w1)
                         else (Ok, w1)
               else (AlreadyReposted, w))))"

text \<open>
  \<^verbatim>\<open>handleFollowToggle(targetAddress, isFollowing)\<close>. The list
  \<^verbatim>\<open>currentUserProfile.following\<close> is the cached array itself: \<^verbatim>\<open>push\<close> changes the
  cache in place (world \<open>w0\<close> below), \<^verbatim>\<open>filter\<close> builds a new array.
\<close>

definition handleFollowToggle :: "env \<Rightarrow> address \<Rightarrow> bool \<Rightarrow> world \<Rightarrow> outcome \<times> world" where
  "handleFollowToggle e targetAddress isFollowing w =
     (case currentWalletAddress (cl w) of
        None \<Rightarrow> (NotConnected, w)
      | Some me \<Rightarrow>
     (case currentUserProfile (cl w) of
        None \<Rightarrow> (NotConnected, w)
      | Some prof \<Rightarrow>
          if me = targetAddress then (SelfTarget, w)
          else
            let currentUserFollowing =
                  (if isFollowing then filter (\<lambda>addr. addr \<noteq> targetAddress) (following prof)
                   else following prof @ [targetAddress]);
                w0 = (if isFollowing then w
                      else w\<lparr>cl := (cl w)\<lparr>currentUserProfile :=
                                   Some (prof\<lparr>following := currentUserFollowing\<rparr>)\<rparr>\<rparr>)
            in if fault e 0 then (MirrorFailed, w0)
               else
                 let w1 = set_profiles
                            (update_rows (\<lambda>p. p_wallet_address p = me)
                               (\<lambda>p. p\<lparr>following := currentUserFollowing\<rparr>)
                               (profiles (db w0))) w0
                 in (case select_single (fault e 1) (\<lambda>p. p_wallet_address p = targetAddress)
                            (profiles (db w1)) of
                       Inl _ \<Rightarrow> (MirrorFailed, w1)
                     | Inr targetUserProfile \<Rightarrow>
                         let targetUserFollowers =
                               (if isFollowing
                                then filter (\<lambda>addr. addr \<noteq> me) (followers targetUserProfile)
                                else followers targetUserProfile @ [me])
                         in if fault e 2 then (MirrorFailed, w1)
                            else
                              let w2 = set_profiles
                                         (update_rows (\<lambda>p. p_wallet_address p = targetAddress)
                                            (\<lambda>p. p\<lparr>followers := targetUserFollowers\<rparr>)
                                            (profiles (db w1))) w1
                              in if \<not> isFollowing \<and> targetAddress \<noteq> me
                                 then (Ok, insert_notification (fault e 3)
                                             \<lparr>recipient_address = targetAddress, n_type = Follow,
                                               message = display_name prof
                                                 @ '' started following you!'',
                                               n_post_id = None, sender_address = me,
                                               read_flag = False\<rparr> w2)
                                 else (Ok, w2))))"

text \<open>
  \<^verbatim>\<open>handleBlock(targetAddress)\<close>. The membership test reads the cached profile, and
  \<^verbatim>\<open>push\<close> changes the cached array in place before the update is sent.
\<close>

definition handleBlock :: "env \<Rightarrow> address \<Rightarrow> world \<Rightarrow> outcome \<times> world" where
  "handleBlock e targetAddress w =
     (case currentWalletAddress (cl w) of
        None \<Rightarrow> (NotConnected, w)
      | Some me \<Rightarrow>
     (case currentUserProfile (cl w) of
        None \<Rightarrow> (NotConnected, w)
      | Some prof \<Rightarrow>
          if me = targetAddress then (SelfTarget, w)
          else if targetAddress \<notin> set (blocked_users prof) then
            let updatedBlocked = blocked_users prof @ [targetAddress];
                w0 = w\<lparr>cl := (cl w)\<lparr>currentUserProfile :=
                             Some (prof\<lparr>blocked_users := updatedBlocked\<rparr>)\<rparr>\<rparr>
            in if fault e 0 then (MirrorFailed, w0)
               else (Ok, set_profiles
                           (update_rows (\<lambda>p. p_wallet_address p = me)
                              (\<lambda>p. p\<lparr>blocked_users := updatedBlocked\<rparr>)
                              (profiles (db w0))) w0)
          else (AlreadyBlocked, w)))"

section \<open>Wallet cache refresh\<close>

text \<open>
  \<^verbatim>\<open>fetchWalletData\<close>, run when the client connects and on every change event of the
  client's wallet row: it replaces \<^verbatim>\<open>walletData\<close> by the stored row, or creates the
  default row when there is none.
\<close>

definition fetchWalletData :: "env \<Rightarrow> world \<Rightarrow> outcome \<times> world" where
  "fetchWalletData e w =
     (case currentWalletAddress (cl w) of
        None \<Rightarrow> (NotConnected, w)
      | Some me \<Rightarrow>
          (case select_single (fault e 0) (\<lambda>r. w_wallet_address r = me) (wallets (db w)) of
             Inr data \<Rightarrow> (Ok, w\<lparr>cl := (cl w)\<lparr>walletData := data\<rparr>\<rparr>)
           | Inl PGRST116 \<Rightarrow>
               (let fresh = \<lparr>w_wallet_address = me, gor_balance = 0, tickets_holding = []\<rparr>
                in case insert_wallet (fault e 1) fresh (wallets (db w)) of
                     Inl _ \<Rightarrow> (MirrorFailed, w)
                   | Inr ws \<Rightarrow> (Ok, set_wallets ws (w\<lparr>cl := (cl w)\<lparr>walletData := fresh\<rparr>\<rparr>)))
           | Inl _ \<Rightarrow> (FetchFailed, w)))"

section \<open>Settlement handlers\<close>

text \<open>
  The ledger part of \<^verbatim>\<open>handleBuyTicket\<close> and \<^verbatim>\<open>handleTip\<close>: build the transfer, send
  it, wait for confirmation. The log records every instruction that reached
  \<^verbatim>\<open>sendTransaction\<close>; the result says whether the code after
  \<^verbatim>\<open>confirmTransaction\<close> is reached.
\<close>

definition ledger_transfer :: "env \<Rightarrow> address \<Rightarrow> address \<Rightarrow> int \<Rightarrow> world \<Rightarrow> bool \<times> world" where
  "ledger_transfer e src dst amt w =
     (let sent = w\<lparr>ledger_log := ledger_log w @
                     [\<lparr>tr_source = src, tr_destination = dst, tr_amount = amt\<rparr>]\<rparr>
      in case ledger e of
           PrepareFailed \<Rightarrow> (False, w)
         | Rejected \<Rightarrow> (False, sent)
         | Timeout \<Rightarrow> (False, sent)
         | Confirmed \<Rightarrow> (True, sent))"

text \<open>
  \<^verbatim>\<open>handleBuyTicket(targetAddress)\<close>. Balance and holdings are those of the cached
  \<^verbatim>\<open>walletData\<close>; the wallet row is written with \<^verbatim>\<open>update(..).eq('wallet_address', ..)\<close>.
\<close>

definition buy_holding :: "env \<Rightarrow> address \<Rightarrow> world \<Rightarrow> db_error + ticket list" where
  "buy_holding e targetAddress w =
     (let holding = tickets_holding (walletData (cl w))
      in case findIndex (\<lambda>t. t_wallet_address t = targetAddress) holding of
           Some i \<Rightarrow> Inr (holding[i := (holding ! i)\<lparr>count := js_add (count (holding ! i)) 1\<rparr>])
         | None \<Rightarrow>
             (case select_single (fault e 0) (\<lambda>p. p_wallet_address p = targetAddress)
                     (profiles (db w)) of
                Inl err \<Rightarrow> Inl err
              | Inr targetProfile \<Rightarrow>
                  Inr (holding @ [\<lparr>t_wallet_address = targetAddress, count = 1,
                                   t_username = username targetProfile\<rparr>])))"

definition handleBuyTicket :: "env \<Rightarrow> address \<Rightarrow> world \<Rightarrow> outcome \<times> world" where
  "handleBuyTicket e targetAddress w =
     (case currentWalletAddress (cl w) of
        None \<Rightarrow> (NotConnected, w)
      | Some me \<Rightarrow>
     (case currentUserProfile (cl w) of
        None \<Rightarrow> (NotConnected, w)
      | Some prof \<Rightarrow>
          if \<not> connected (cl w) then (NotConnected, w)
          else if me = targetAddress then (SelfTarget, w)
          else if gor_balance (walletData (cl w)) < 1 then (InsufficientBalance, w)
          else
            (case ledger_transfer e me targetAddress 1 w of
               (False, w0) \<Rightarrow> (LedgerFailed, w0)
             | (True, w0) \<Rightarrow>
                 (case buy_holding e targetAddress w0 of
                    Inl _ \<Rightarrow> (MirrorFailed, w0)
                  | Inr updatedTicketsHolding \<Rightarrow>
                      if fault e 1 then (MirrorFailed, w0)
                      else
                        let w1 = set_wallets
                                   (update_rows (\<lambda>r. w_wallet_address r = me)
                                      (\<lambda>r. r\<lparr>gor_balance := js_sub (gor_balance (walletData (cl w0))) 1,
                                              tickets_holding := updatedTicketsHolding\<rparr>)
                                      (wallets (db w0))) w0
                        in (case select_single (fault e 2)
                                   (\<lambda>p. p_wallet_address p = targetAddress) (profiles (db w1)) of
                              Inl _ \<Rightarrow> (MirrorFailed, w1)
                            | Inr targetUser \<Rightarrow>
                                if fault e 3 then (MirrorFailed, w1)
                                else
                                  let w2 = set_profiles
                                             (update_rows (\<lambda>p. p_wallet_address p = targetAddress)
                                                (\<lambda>p. p\<lparr>tickets_earned :=
                                                          js_add (tickets_earned targetUser) 1\<rparr>)
                                                (profiles (db w1))) w1
                                  in (Ok, insert_notification (fault e 4)
                                            \<lparr>recipient_address = targetAddress,
                                              n_type = Ticket_buy,
                                              message = display_name prof
                                                @ '' bought a ticket for you!'',
                                              n_post_id = None, sender_address = me,
                                              read_flag = False\<rparr> w2))))))"

text \<open>
  \<^verbatim>\<open>handleSellTicket(targetAddress)\<close>. No ledger transfer. The copy
  \<^verbatim>\<open>[...walletData.tickets_holding]\<close> shares its elements with the cache, so
  \<^verbatim>\<open>count -= 1\<close> also changes the cached entry (world \<open>w0\<close>); \<^verbatim>\<open>splice\<close> changes the
  copy only.
\<close>

definition handleSellTicket :: "env \<Rightarrow> address \<Rightarrow> world \<Rightarrow> outcome \<times> world" where
  "handleSellTicket e targetAddress w =
     (case currentWalletAddress (cl w) of
        None \<Rightarrow> (NotConnected, w)
      | Some me \<Rightarrow>
     (case currentUserProfile (cl w) of
        None \<Rightarrow> (NotConnected, w)
      | Some prof \<Rightarrow>
          if \<not> connected (cl w) then (NotConnected, w)
          else
            let holding = tickets_holding (walletData (cl w))
            in (case findIndex (\<lambda>t. t_wallet_address t = targetAddress) holding of
                  None \<Rightarrow> (NoTicketHeld, w)
                | Some i \<Rightarrow>
                    if count (holding ! i) = 0 then (NoTicketHeld, w)
                    else
                      let decremented = holding[i := (holding ! i)\<lparr>count := js_sub (count (holding ! i)) 1\<rparr>];
                          w0 = w\<lparr>cl := (cl w)\<lparr>walletData :=
                                   (walletData (cl w))\<lparr>tickets_holding := decremented\<rparr>\<rparr>\<rparr>;
                          updatedTicketsHolding =
                            (if count (decremented ! i) = 0 then splice1 i decremented
                             else decremented)
                      in if fault e 0 then (MirrorFailed, w0)
                         else
                           let w1 = set_wallets
                                      (update_rows (\<lambda>r. w_wallet_address r = me)
                                         (\<lambda>r. r\<lparr>gor_balance := js_add (gor_balance (walletData (cl w0))) 1,
                                                 tickets_holding := updatedTicketsHolding\<rparr>)
                                         (wallets (db w0))) w0
                           in (case select_single (fault e 1)
                                      (\<lambda>p. p_wallet_address p = targetAddress)
                                      (profiles (db w1)) of
                                 Inl _ \<Rightarrow> (MirrorFailed, w1)
                               | Inr targetUser \<Rightarrow>
                                   if fault e 2 then (MirrorFailed, w1)
                                   else (Ok, set_profiles
                                               (update_rows
                                                  (\<lambda>p. p_wallet_address p = targetAddress)
                                                  (\<lambda>p. p\<lparr>tickets_earned :=
                                                            max 0 (js_sub (tickets_earned targetUser) 1)\<rparr>)
                                                  (profiles (db w1))) w1)))))"

text \<open>
  \<^verbatim>\<open>handleTip(targetAddress, amount)\<close>. The sender's new balance is computed from the
  cached \<^verbatim>\<open>walletData\<close>; the receiver's balance is read from the store (a read that
  finds no single row counts as balance 0) and written back with an upsert.
\<close>

definition handleTip :: "env \<Rightarrow> address \<Rightarrow> int \<Rightarrow> world \<Rightarrow> outcome \<times> world" where
  "handleTip e targetAddress amount w =
     (case currentWalletAddress (cl w) of
        None \<Rightarrow> (NotConnected, w)
      | Some me \<Rightarrow>
     (case currentUserProfile (cl w) of
        None \<Rightarrow> (NotConnected, w)
      | Some prof \<Rightarrow>
          if \<not> connected (cl w) then (NotConnected, w)
          else if me = targetAddress then (SelfTarget, w)
          else if gor_balance (walletData (cl w)) < amount then (InsufficientBalance, w)
          else if amount \<le> 0 then (NonPositiveAmount, w)
          else
            (case ledger_transfer e me targetAddress amount w of
               (False, w0) \<Rightarrow> (LedgerFailed, w0)
             | (True, w0) \<Rightarrow>
                 if fault e 0 then (MirrorFailed, w0)
                 else
                   let w1 = set_wallets
                              (update_rows (\<lambda>r. w_wallet_address r = me)
                                 (\<lambda>r. r\<lparr>gor_balance := js_sub (gor_balance (walletData (cl w0))) amount\<rparr>)
                                 (wallets (db w0))) w0;
                       receiverWallet = select_single (fault e 1)
                                          (\<lambda>r. w_wallet_address r = targetAddress) (wallets (db w1))
                   in if (case receiverWallet of Inl err \<Rightarrow> err \<noteq> PGRST116 | Inr _ \<Rightarrow> False)
                      then (MirrorFailed, w1)
                      else
                        let receiverCurrentBalance =
                              (case receiverWallet of Inr r \<Rightarrow> gor_balance r | Inl _ \<Rightarrow> 0)
                        in if fault e 2 then (MirrorFailed, w1)
                           else
                             let w2 = set_wallets
                                        (upsert_wallet (holding_default e) targetAddress
                                           (js_add receiverCurrentBalance amount)
                                           (wallets (db w1))) w1
                             in (Ok, insert_notification (fault e 3)
                                       \<lparr>recipient_address = targetAddress, n_type = Tip,
                                         message = display_name prof @ '' tipped you ''
                                           @ number_text e amount @ '' GOR!'',
                                         n_post_id = None, sender_address = me,
                                         read_flag = False\<rparr> w2))))"

section \<open>Vocabulary of the properties\<close>

text \<open>
  The guard that opens the three settlement handlers:
  \<^verbatim>\<open>!supabase || !currentWalletAddress || !currentUserProfile || !connected || !publicKey\<close>
  is false.
\<close>

definition wallet_ready :: "client \<Rightarrow> bool" where
  "wallet_ready c = (currentWalletAddress c \<noteq> None \<and> currentUserProfile c \<noteq> None \<and> connected c)"

text \<open>The wallet row stored for an address, its mirrored balance (0 when there is no row).\<close>

definition stored_wallet :: "store \<Rightarrow> address \<Rightarrow> wallet option" where
  "stored_wallet st a = find (\<lambda>r. w_wallet_address r = a) (wallets st)"

definition mirrored_balance :: "store \<Rightarrow> address \<Rightarrow> int" where
  "mirrored_balance st a = (case stored_wallet st a of None \<Rightarrow> 0 | Some r \<Rightarrow> gor_balance r)"

definition total_balance :: "store \<Rightarrow> int" where
  "total_balance st = sum_list (map gor_balance (wallets st))"

text \<open>
  \<^verbatim>\<open>Number.isSafeInteger\<close>: an integer of magnitude below \<open>2 ^ 53\<close>. Adding or
  subtracting 1 is exact on these.
\<close>

definition safe_integer :: "int \<Rightarrow> bool" where
  "safe_integer x = (\<bar>x\<bar> < 2 ^ 53)"


text \<open>The notifications a run appended: those of the new store beyond the old ones.\<close>

definition added_notifications :: "world \<Rightarrow> world \<Rightarrow> notification list" where
  "added_notifications w w' = drop (length (notifications (db w))) (notifications (db w'))"

text \<open>
  A run from \<open>w\<close> to \<open>w'\<close> only appended notifications, each addressed to someone other
  than its sender, the sender being the acting client.
\<close>

definition notifies_others_only :: "world \<Rightarrow> world \<Rightarrow> bool" where
  "notifies_others_only w w' =
     (notifications (db w') = notifications (db w) @ added_notifications w w' \<and>
      (\<forall>n \<in> set (added_notifications w w').
          recipient_address n \<noteq> sender_address n \<and>
          currentWalletAddress (cl w) = Some (sender_address n)))"

text \<open>
  The counters of a post are in step with its lists: no address occurs twice, and each
  counter is the length of its list (so it is the cardinality of the set).
\<close>

definition post_counts_ok :: "post \<Rightarrow> bool" where
  "post_counts_ok p =
     (distinct (likes p) \<and> likes_count p = int (length (likes p)) \<and>
      distinct (reposts p) \<and> reposts_count p = int (length (reposts p)))"

section \<open>Example data\<close>

definition alice :: address where "alice = ''A1ice''"
definition bob :: address where "bob = ''Bob77''"

definition new_profile :: "address \<Rightarrow> string \<Rightarrow> profile" where
  "new_profile a n = \<lparr>p_wallet_address = a, username = n, bio = ''Hello, I am new here!'',
     followers = [], following = [], tickets_earned = 0, blocked_users = []\<rparr>"

definition hello_post :: post where
  "hello_post = \<lparr>id_post = 1, author_address = alice, post_username = ''Alice_W3'',
     content = ''hello'', image_url = None, likes = [], reposts = [], likes_count = 0,
     reposts_count = 0, comments_count = 0\<rparr>"

definition wallet_row :: "address \<Rightarrow> int \<Rightarrow> ticket list \<Rightarrow> wallet" where
  "wallet_row a b h = \<lparr>w_wallet_address = a, gor_balance = b, tickets_holding = h\<rparr>"

definition bob_ticket :: "int \<Rightarrow> ticket" where
  "bob_ticket n = \<lparr>t_wallet_address = bob, count = n, t_username = ''Bob_Chain''\<rparr>"

text \<open>
  A store with the profiles of Alice and Bob, one post by Alice and the given wallet rows,
  seen by a connected client of address \<open>a\<close> whose cached wallet is \<open>cached\<close>.
\<close>

definition demo_store :: "wallet list \<Rightarrow> store" where
  "demo_store ws = \<lparr>profiles = [new_profile alice ''Alice_W3'', new_profile bob ''Bob_Chain''],
     wallets = ws, posts = [hello_post], comments = [], notifications = []\<rparr>"

definition demo_client :: "address \<Rightarrow> string \<Rightarrow> wallet \<Rightarrow> client" where
  "demo_client a n cached = \<lparr>publicKey = Some a, connected = True,
     currentUserProfile = Some (new_profile a n), walletData = cached\<rparr>"

definition demo_world :: "address \<Rightarrow> string \<Rightarrow> wallet \<Rightarrow> wallet list \<Rightarrow> world" where
  "demo_world a n cached ws = \<lparr>db = demo_store ws, cl = demo_client a n cached, ledger_log = []\<rparr>"

text \<open>
  Decimal digits of an integer: what every engine prints for an integer below \<open>2 ^ 53\<close>
  in magnitude, which is all the examples use.
\<close>

fun digits :: "nat \<Rightarrow> string" where
  "digits n = (if n < 10 then [char_of (48 + n)] else digits (n div 10) @ [char_of (48 + n mod 10)])"

declare digits.simps [simp del]

definition decimal :: "int \<Rightarrow> string" where
  "decimal i = (if i < 0 then CHR ''-'' # digits (nat (- i)) else digits (nat i))"

text \<open>An environment without store faults, with the given ledger answer.\<close>

definition calm :: "ledger_result \<Rightarrow> env" where
  "calm l = \<lparr>ledger = l, fault = (\<lambda>_. False), holding_default = [], number_text = decimal\<rparr>"

section \<open>Exact arithmetic up to \<open>2 ^ 53\<close>\<close>

lemma bit_length_bound: "n < 2 ^ k \<Longrightarrow> bit_length n \<le> k"
proof (induction k arbitrary: n)
  case 0
  then show ?case by (simp add: bit_length.simps)
next
  case (Suc k)
  show ?case
  proof (cases "n = 0")
    case True
    then show ?thesis by (simp add: bit_length.simps)
  next
    case False
    from Suc.prems have "n div 2 < 2 ^ k" by simp
    from Suc.IH [OF this] False show ?thesis by (subst bit_length.simps) simp
  qed
qed

lemma round_double_small: "\<bar>x\<bar> < 2 ^ 53 \<Longrightarrow> round_double x = x"
proof -
  assume a: "\<bar>x\<bar> < 2 ^ 53"
  then have "nat \<bar>x\<bar> < 2 ^ 53" by (simp add: nat_less_iff)
  then have "bit_length (nat \<bar>x\<bar>) - 53 = 0" using bit_length_bound by simp
  then show ?thesis by (simp add: round_double_def Let_def sgn_if)
qed

lemma bit_length_2_53: "bit_length 9007199254740992 = 54"
  by (simp add: bit_length.simps)

lemma round_double_2_53:
  "round_double 9007199254740992 = 9007199254740992"
  "round_double (- 9007199254740992) = - 9007199254740992"
  by (simp_all add: round_double_def Let_def bit_length_2_53)

lemma round_double_exact: "\<bar>x\<bar> \<le> 2 ^ 53 \<Longrightarrow> round_double x = x"
proof -
  assume "\<bar>x\<bar> \<le> 2 ^ 53"
  then consider "\<bar>x\<bar> < 2 ^ 53" | "x = 9007199254740992" | "x = - 9007199254740992"
    by fastforce
  then show ?thesis
    by cases (simp_all add: round_double_small round_double_2_53)
qed

lemma js_add_exact: "\<bar>a + b\<bar> \<le> 2 ^ 53 \<Longrightarrow> js_add a b = a + b"
  by (simp add: js_add_def round_double_exact)

lemma js_sub_exact: "\<bar>a - b\<bar> \<le> 2 ^ 53 \<Longrightarrow> js_sub a b = a - b"
  by (simp add: js_sub_def round_double_exact)

lemma safe_step:
  "safe_integer x \<Longrightarrow> js_add x 1 = x + 1 \<and> js_sub x 1 = x - 1"
  by (simp add: safe_integer_def js_add_exact js_sub_exact)

text \<open>Beyond \<open>2 ^ 53\<close> a step of 1 is lost or doubled.\<close>

lemma bit_length_above_2_53:
  "bit_length 9007199254740993 = 54" "bit_length 9007199254740995 = 54"
  by (simp_all add: bit_length.simps)

lemma js_steps_above_2_53:
  "js_add 9007199254740992 1 = 9007199254740992"
  "js_sub 9007199254740994 1 = 9007199254740992"
  "js_add 9007199254740994 1 = 9007199254740996"
  by (simp_all add: js_add_def js_sub_def round_double_def Let_def bit_length_above_2_53)

section \<open>Basic facts about the gateway\<close>

lemma single_filter_mem: "single (filter p rows) = Inr r \<Longrightarrow> r \<in> set rows \<and> p r"
proof -
  assume a: "single (filter p rows) = Inr r"
  then have "filter p rows = [r]"
    by (auto simp: single_def split: list.splits)
  then have "r \<in> set (filter p rows)" by simp
  then show ?thesis by simp
qed

lemma select_single_mem: "select_single f p rows = Inr r \<Longrightarrow> r \<in> set rows \<and> p r"
  by (auto simp: select_single_def dest: single_filter_mem split: if_splits)

lemma insert_notification_proj [simp]:
  "cl (insert_notification f n w) = cl w"
  "ledger_log (insert_notification f n w) = ledger_log w"
  "posts (db (insert_notification f n w)) = posts (db w)"
  "wallets (db (insert_notification f n w)) = wallets (db w)"
  "profiles (db (insert_notification f n w)) = profiles (db w)"
  "comments (db (insert_notification f n w)) = comments (db w)"
  "notifications (db (insert_notification f n w)) =
     (if f then notifications (db w) else notifications (db w) @ [n])"
  by (simp_all add: insert_notification_def)

lemma set_posts_proj [simp]:
  "cl (set_posts ps w) = cl w"
  "ledger_log (set_posts ps w) = ledger_log w"
  "posts (db (set_posts ps w)) = ps"
  "wallets (db (set_posts ps w)) = wallets (db w)"
  "profiles (db (set_posts ps w)) = profiles (db w)"
  "comments (db (set_posts ps w)) = comments (db w)"
  "notifications (db (set_posts ps w)) = notifications (db w)"
  by (simp_all add: set_posts_def)

lemma set_wallets_proj [simp]:
  "cl (set_wallets ws w) = cl w"
  "ledger_log (set_wallets ws w) = ledger_log w"
  "posts (db (set_wallets ws w)) = posts (db w)"
  "wallets (db (set_wallets ws w)) = ws"
  "profiles (db (set_wallets ws w)) = profiles (db w)"
  "comments (db (set_wallets ws w)) = comments (db w)"
  "notifications (db (set_wallets ws w)) = notifications (db w)"
  by (simp_all add: set_wallets_def)

lemma set_profiles_proj [simp]:
  "cl (set_profiles ps w) = cl w"
  "ledger_log (set_profiles ps w) = ledger_log w"
  "posts (db (set_profiles ps w)) = posts (db w)"
  "wallets (db (set_profiles ps w)) = wallets (db w)"
  "profiles (db (set_profiles ps w)) = ps"
  "comments (db (set_profiles ps w)) = comments (db w)"
  "notifications (db (set_profiles ps w)) = notifications (db w)"
  by (simp_all add: set_profiles_def)

lemma in_update_rows:
  "x \<in> set (update_rows p f rows) \<Longrightarrow>
     (x \<in> set rows \<and> \<not> p x) \<or> (\<exists>r \<in> set rows. p r \<and> x = f r)"
  by (auto simp: update_rows_def)

lemma update_rows_Ball:
  "(\<And>r. r \<in> set rows \<Longrightarrow> p r \<Longrightarrow> Q (f r)) \<Longrightarrow>
   (\<And>r. r \<in> set rows \<Longrightarrow> \<not> p r \<Longrightarrow> Q r) \<Longrightarrow>
   \<forall>x \<in> set (update_rows p f rows). Q x"
  by (auto simp: update_rows_def)

section \<open>Ledger failure aborts the settlement\<close>

lemma ledger_transfer_failed:
  "ledger e \<noteq> Confirmed \<Longrightarrow>
     \<exists>w0. ledger_transfer e s d a w = (False, w0) \<and> db w0 = db w \<and> cl w0 = cl w"
  by (cases "ledger e") (simp_all add: ledger_transfer_def)

text \<open>
  Claim C2. When the ledger transfer of a tip or a ticket purchase is not confirmed (a step
  before sending, \<^verbatim>\<open>sendTransaction\<close> or \<^verbatim>\<open>confirmTransaction\<close> throws), the handler
  ends in its \<^verbatim>\<open>catch\<close> block: it does not succeed, and the mirror store (wallets,
  profiles with their ticket counters, holdings, notifications, every table) and the
  client's cached state are exactly what they were before the attempt.
\<close>

theorem ledger_failure_writes_nothing:
  assumes "ledger e \<noteq> Confirmed"
  shows "db (snd (handleTip e r a w)) = db w \<and> cl (snd (handleTip e r a w)) = cl w
       \<and> fst (handleTip e r a w) \<noteq> Ok
       \<and> db (snd (handleBuyTicket e t w)) = db w \<and> cl (snd (handleBuyTicket e t w)) = cl w
       \<and> fst (handleBuyTicket e t w) \<noteq> Ok"
proof -
  have tip: "db (snd (handleTip e r a w)) = db w \<and> cl (snd (handleTip e r a w)) = cl w
       \<and> fst (handleTip e r a w) \<noteq> Ok"
  proof (cases "currentWalletAddress (cl w)")
    case None
    then show ?thesis by (simp add: handleTip_def)
  next
    case (Some me)
    obtain w0 where "ledger_transfer e me r a w = (False, w0)" "db w0 = db w" "cl w0 = cl w"
      using ledger_transfer_failed [OF assms] by blast
    with Some show ?thesis
      by (simp add: handleTip_def split: option.splits)
  qed
  have buy: "db (snd (handleBuyTicket e t w)) = db w \<and> cl (snd (handleBuyTicket e t w)) = cl w
       \<and> fst (handleBuyTicket e t w) \<noteq> Ok"
  proof (cases "currentWalletAddress (cl w)")
    case None
    then show ?thesis by (simp add: handleBuyTicket_def)
  next
    case (Some me)
    obtain w0 where "ledger_transfer e me t 1 w = (False, w0)" "db w0 = db w" "cl w0 = cl w"
      using ledger_transfer_failed [OF assms] by blast
    with Some show ?thesis
      by (simp add: handleBuyTicket_def split: option.splits)
  qed
  from tip buy show ?thesis by simp
qed

text \<open>
  Alice (cached and stored balance 5) tips Bob 3 and declines to sign: the instruction
  reached \<^verbatim>\<open>sendTransaction\<close>, and the store is untouched.
\<close>

theorem ledger_failure_writes_nothing_witness:
  "ledger (calm Rejected) \<noteq> Confirmed
   \<and> db (snd (handleTip (calm Rejected) bob 3
        (demo_world alice ''Alice_W3'' (wallet_row alice 5 []) [wallet_row alice 5 []])))
      = demo_store [wallet_row alice 5 []]
   \<and> ledger_log (snd (handleTip (calm Rejected) bob 3
        (demo_world alice ''Alice_W3'' (wallet_row alice 5 []) [wallet_row alice 5 []])))
      = [\<lparr>tr_source = alice, tr_destination = bob, tr_amount = 3\<rparr>]"
proof -
  have h: "ledger (calm Rejected) \<noteq> Confirmed" by (simp add: calm_def)
  have "ledger_log (snd (handleTip (calm Rejected) bob 3
          (demo_world alice ''Alice_W3'' (wallet_row alice 5 []) [wallet_row alice 5 []])))
      = [\<lparr>tr_source = alice, tr_destination = bob, tr_amount = 3\<rparr>]"
    by (simp add: handleTip_def calm_def demo_world_def demo_client_def currentWalletAddress_def
       wallet_row_def alice_def bob_def ledger_transfer_def
        js_add_exact js_sub_exact)
  with h ledger_failure_writes_nothing [OF h, of bob 3
          "demo_world alice ''Alice_W3'' (wallet_row alice 5 []) [wallet_row alice 5 []]"]
  show ?thesis by (simp add: demo_world_def)
qed

section \<open>Reposting\<close>

lemma repost_patch_marks:
  "\<forall>p \<in> set (update_rows (\<lambda>p. id_post p = postId)
       (\<lambda>p. p\<lparr>reposts := rs @ [me], reposts_count := n\<rparr>) ps).
     id_post p = postId \<longrightarrow> me \<in> set (reposts p)"
  by (rule update_rows_Ball) simp_all

lemma repost_ok_present:
  assumes ok: "fst (handleRepost e postId w) = Ok"
  shows "\<exists>me. currentWalletAddress (cl (snd (handleRepost e postId w))) = Some me \<and>
     (\<forall>p \<in> set (posts (db (snd (handleRepost e postId w)))). id_post p = postId \<longrightarrow> me \<in> set (reposts p))"
proof (cases "currentWalletAddress (cl w)")
  case None
  with ok show ?thesis by (simp add: handleRepost_def)
next
  case me: (Some me)
  show ?thesis
  proof (cases "currentUserProfile (cl w)")
    case None
    with ok me show ?thesis by (simp add: handleRepost_def)
  next
    case pr: (Some prof)
    show ?thesis
    proof (cases "select_single (fault e 0) (\<lambda>p. id_post p = postId) (posts (db w))")
      case (Inl err)
      with ok me pr show ?thesis by (simp add: handleRepost_def)
    next
      case rd: (Inr postData)
      show ?thesis
      proof (cases "me \<in> set (reposts postData) \<or> fault e 1")
        case True
        with ok me pr rd show ?thesis by (auto simp add: handleRepost_def)
      next
        case False
        with me pr rd have
          "cl (snd (handleRepost e postId w)) = cl w"
          "posts (db (snd (handleRepost e postId w))) =
             update_rows (\<lambda>p. id_post p = postId)
               (\<lambda>p. p\<lparr>reposts := reposts postData @ [me],
                       reposts_count := js_add (reposts_count postData) 1\<rparr>) (posts (db w))"
          by (simp_all add: handleRepost_def Let_def)
        with me have "currentWalletAddress (cl (snd (handleRepost e postId w))) = Some me \<and>
          (\<forall>p \<in> set (posts (db (snd (handleRepost e postId w)))).
              id_post p = postId \<longrightarrow> me \<in> set (reposts p))"
          by (simp add: repost_patch_marks)
        then show ?thesis by (rule exI)
      qed
    qed
  qed
qed


lemma repost_present_noop:
  assumes "currentWalletAddress (cl w) = Some me"
    and "\<forall>p \<in> set (posts (db w)). id_post p = postId \<longrightarrow> me \<in> set (reposts p)"
  shows "snd (handleRepost e postId w) = w \<and> fst (handleRepost e postId w) \<noteq> Ok"
  using assms
  by (auto simp: handleRepost_def Let_def split: option.splits sum.splits dest!: select_single_mem)

text \<open>
  Claim C9. A repost attempt by an address that is already in the reposts list of the post
  (of every stored post with that id) is rejected: the handler changes nothing at all, so
  the reposts list, \<^verbatim>\<open>reposts_count\<close>, every other field and the notifications stay as
  they were. After a successful repost the address is in the list, so a further attempt by
  the same client changes nothing either: a repost takes effect at most once per address
  and post.
\<close>

theorem repost_at_most_once:
  "(currentWalletAddress (cl w) = Some me \<and>
    (\<forall>p \<in> set (posts (db w)). id_post p = postId \<longrightarrow> me \<in> set (reposts p)) \<longrightarrow>
      snd (handleRepost e postId w) = w \<and> fst (handleRepost e postId w) \<noteq> Ok)
   \<and> (fst (handleRepost e postId w) = Ok \<longrightarrow>
      snd (handleRepost e' postId (snd (handleRepost e postId w))) = snd (handleRepost e postId w)
      \<and> fst (handleRepost e' postId (snd (handleRepost e postId w))) \<noteq> Ok)"
proof (intro conjI impI)
  assume a: "currentWalletAddress (cl w) = Some me \<and>
    (\<forall>p \<in> set (posts (db w)). id_post p = postId \<longrightarrow> me \<in> set (reposts p))"
  then show "snd (handleRepost e postId w) = w" using repost_present_noop by blast
  from a show "fst (handleRepost e postId w) \<noteq> Ok" using repost_present_noop by blast
next
  assume ok: "fst (handleRepost e postId w) = Ok"
  from repost_ok_present [OF ok] obtain me where
    m: "currentWalletAddress (cl (snd (handleRepost e postId w))) = Some me"
       "\<forall>p \<in> set (posts (db (snd (handleRepost e postId w)))). id_post p = postId \<longrightarrow> me \<in> set (reposts p)"
    by blast
  show "snd (handleRepost e' postId (snd (handleRepost e postId w))) = snd (handleRepost e postId w)"
    using repost_present_noop [OF m] by blast
  show "fst (handleRepost e' postId (snd (handleRepost e postId w))) \<noteq> Ok"
    using repost_present_noop [OF m] by blast
qed

text \<open>
  Bob reposts Alice's post: the first attempt adds him and notifies Alice, the second is
  rejected and leaves the world as the first left it.
\<close>

theorem repost_at_most_once_witness:
  "currentWalletAddress (cl (demo_world bob ''Bob_Chain'' (wallet_row bob 0 []) [])) = Some bob
   \<and> handleRepost (calm Confirmed) 1 (demo_world bob ''Bob_Chain'' (wallet_row bob 0 []) [])
      = (Ok, insert_notification False
          \<lparr>recipient_address = alice, n_type = Repost, message = ''Bob_Chain reposted your post!'',
            n_post_id = Some 1, sender_address = bob, read_flag = False\<rparr>
          (set_posts [hello_post\<lparr>reposts := [bob], reposts_count := 1\<rparr>]
            (demo_world bob ''Bob_Chain'' (wallet_row bob 0 []) [])))
   \<and> handleRepost (calm Confirmed) 1
        (snd (handleRepost (calm Confirmed) 1 (demo_world bob ''Bob_Chain'' (wallet_row bob 0 []) [])))
      = (AlreadyReposted,
         snd (handleRepost (calm Confirmed) 1 (demo_world bob ''Bob_Chain'' (wallet_row bob 0 []) [])))"
proof -
  let ?w = "demo_world bob ''Bob_Chain'' (wallet_row bob 0 []) []"
  have first: "handleRepost (calm Confirmed) 1 ?w
      = (Ok, insert_notification False
          \<lparr>recipient_address = alice, n_type = Repost, message = ''Bob_Chain reposted your post!'',
            n_post_id = Some 1, sender_address = bob, read_flag = False\<rparr>
          (set_posts [hello_post\<lparr>reposts := [bob], reposts_count := 1\<rparr>] ?w))"
    by (simp add: handleRepost_def calm_def demo_world_def demo_client_def demo_store_def
        currentWalletAddress_def select_single_def single_def hello_post_def update_rows_def
        display_name_def new_profile_def alice_def bob_def Let_def
        js_add_exact js_sub_exact)
  have me: "currentWalletAddress (cl ?w) = Some bob"
    by (simp add: demo_world_def demo_client_def currentWalletAddress_def)
  have okk: "fst (handleRepost (calm Confirmed) 1 ?w) = Ok" using first by simp
  have second: "fst (handleRepost (calm Confirmed) 1 (snd (handleRepost (calm Confirmed) 1 ?w)))
      = AlreadyReposted"
    unfolding first
    by (simp add: handleRepost_def calm_def demo_world_def demo_client_def demo_store_def
        currentWalletAddress_def select_single_def single_def hello_post_def update_rows_def
        display_name_def new_profile_def alice_def bob_def Let_def
        js_add_exact js_sub_exact)
  from repost_at_most_once [of ?w bob 1 "calm Confirmed" "calm Confirmed"] okk second me first
  show ?thesis by (metis prod.collapse)
qed

section \<open>Validation before any ledger submission\<close>




section \<open>Blocking\<close>

text \<open>
  Claim C10. Blocking is idempotent. When the target is already in the acting user's
  \<^verbatim>\<open>blocked_users\<close> list (the list of \<^verbatim>\<open>currentUserProfile\<close> that the handler tests),
  a block request changes nothing and sends no update. A block request that directly
  follows another one for the same target leaves the world as the first left it, whatever
  the first did (\<^verbatim>\<open>push\<close> has put the target into the cached list). A list without
  duplicates stays without duplicates, in the cache and in every profile row the handler
  writes.
\<close>

theorem block_idempotent:
  "(currentUserProfile (cl w) = Some prof \<and> target \<in> set (blocked_users prof) \<longrightarrow>
      snd (handleBlock e target w) = w \<and> fst (handleBlock e target w) \<noteq> Ok)
   \<and> snd (handleBlock e' target (snd (handleBlock e target w))) = snd (handleBlock e target w)
   \<and> (currentUserProfile (cl w) = Some prof \<and> distinct (blocked_users prof) \<longrightarrow>
        (\<forall>q. currentUserProfile (cl (snd (handleBlock e target w))) = Some q \<longrightarrow>
               distinct (blocked_users q))
        \<and> (\<forall>p \<in> set (profiles (db (snd (handleBlock e target w)))).
               p \<in> set (profiles (db w)) \<or> distinct (blocked_users p)))"
proof (intro conjI impI)
  assume a: "currentUserProfile (cl w) = Some prof \<and> target \<in> set (blocked_users prof)"
  then show "snd (handleBlock e target w) = w"
    by (simp add: handleBlock_def split: option.splits)
  from a show "fst (handleBlock e target w) \<noteq> Ok"
    by (simp add: handleBlock_def split: option.splits)
next
  show "snd (handleBlock e' target (snd (handleBlock e target w))) = snd (handleBlock e target w)"
    by (simp add: handleBlock_def Let_def currentWalletAddress_def split: option.splits)
next
  assume a: "currentUserProfile (cl w) = Some prof \<and> distinct (blocked_users prof)"
  then show "\<forall>q. currentUserProfile (cl (snd (handleBlock e target w))) = Some q \<longrightarrow>
               distinct (blocked_users q)"
    by (simp add: handleBlock_def Let_def split: option.splits)
  from a show "\<forall>p \<in> set (profiles (db (snd (handleBlock e target w)))).
               p \<in> set (profiles (db w)) \<or> distinct (blocked_users p)"
    by (auto simp add: handleBlock_def Let_def split: option.splits dest!: in_update_rows)
qed

text \<open>
  Alice blocks Bob twice: the first request writes \<^verbatim>\<open>[bob]\<close> to her profile row, the
  second is answered "already blocked" and writes nothing.
\<close>

theorem block_idempotent_witness:
  "currentUserProfile (cl (snd (handleBlock (calm Confirmed) bob
       (demo_world alice ''Alice_W3'' (wallet_row alice 0 []) []))))
     = Some ((new_profile alice ''Alice_W3'')\<lparr>blocked_users := [bob]\<rparr>)
   \<and> bob \<in> set (blocked_users ((new_profile alice ''Alice_W3'')\<lparr>blocked_users := [bob]\<rparr>))
   \<and> distinct (blocked_users (new_profile alice ''Alice_W3''))
   \<and> map blocked_users (profiles (db (snd (handleBlock (calm Confirmed) bob
       (demo_world alice ''Alice_W3'' (wallet_row alice 0 []) []))))) = [[bob], []]
   \<and> handleBlock (calm Confirmed) bob (snd (handleBlock (calm Confirmed) bob
       (demo_world alice ''Alice_W3'' (wallet_row alice 0 []) [])))
     = (AlreadyBlocked, snd (handleBlock (calm Confirmed) bob
       (demo_world alice ''Alice_W3'' (wallet_row alice 0 []) [])))"
proof -
  let ?w = "demo_world alice ''Alice_W3'' (wallet_row alice 0 []) []"
  let ?w1 = "snd (handleBlock (calm Confirmed) bob ?w)"
  have first: "handleBlock (calm Confirmed) bob ?w =
      (Ok, set_profiles [(new_profile alice ''Alice_W3'')\<lparr>blocked_users := [bob]\<rparr>,
                         new_profile bob ''Bob_Chain'']
             (?w\<lparr>cl := (cl ?w)\<lparr>currentUserProfile :=
                     Some ((new_profile alice ''Alice_W3'')\<lparr>blocked_users := [bob]\<rparr>)\<rparr>\<rparr>))"
    by (simp add: handleBlock_def calm_def demo_world_def demo_client_def demo_store_def
        currentWalletAddress_def update_rows_def new_profile_def alice_def bob_def Let_def
        js_add_exact js_sub_exact)
  have c: "currentUserProfile (cl ?w1)
      = Some ((new_profile alice ''Alice_W3'')\<lparr>blocked_users := [bob]\<rparr>)"
    unfolding first by simp
  have m: "bob \<in> set (blocked_users ((new_profile alice ''Alice_W3'')\<lparr>blocked_users := [bob]\<rparr>))"
    by simp
  have d: "distinct (blocked_users (new_profile alice ''Alice_W3''))"
    by (simp add: new_profile_def)
  have rows: "map blocked_users (profiles (db ?w1)) = [[bob], []]"
    unfolding first by (simp add: new_profile_def)
  have second: "fst (handleBlock (calm Confirmed) bob ?w1) = AlreadyBlocked"
    unfolding first
    by (simp add: handleBlock_def demo_world_def demo_client_def currentWalletAddress_def
        alice_def bob_def)
  from block_idempotent [of ?w1 "(new_profile alice ''Alice_W3'')\<lparr>blocked_users := [bob]\<rparr>" bob
         "calm Confirmed" "calm Confirmed"] c m
  have "snd (handleBlock (calm Confirmed) bob ?w1) = ?w1" by blast
  with second have "handleBlock (calm Confirmed) bob ?w1 = (AlreadyBlocked, ?w1)"
    by (simp add: prod_eq_iff)
  with c m d rows show ?thesis by simp
qed

section \<open>Notifications never address their sender\<close>

lemma notifies_same:
  "notifications (db w') = notifications (db w) \<Longrightarrow> notifies_others_only w w'"
  by (simp add: notifies_others_only_def added_notifications_def)

lemma notifies_insert:
  "notifications (db w2) = notifications (db w) \<Longrightarrow> recipient_address n \<noteq> sender_address n \<Longrightarrow>
   currentWalletAddress (cl w) = Some (sender_address n) \<Longrightarrow>
   notifies_others_only w (insert_notification f n w2)"
  by (simp add: notifies_others_only_def added_notifications_def)

lemma ledger_transfer_proj [simp]:
  "db (snd (ledger_transfer e s d a w)) = db w"
  "cl (snd (ledger_transfer e s d a w)) = cl w"
  by (cases "ledger e"; simp add: ledger_transfer_def)+

lemma ledger_transfer_eq:
  "ledger_transfer e s d a w = (b, w0) \<Longrightarrow> db w0 = db w \<and> cl w0 = cl w"
  using ledger_transfer_proj [of e s d a w] by simp

lemma comment_notifies: "notifies_others_only w (snd (handleComment e postId c w))"
  by (simp add: handleComment_def Let_def notifies_same notifies_insert
      split: option.splits sum.splits)

lemma repost_notifies: "notifies_others_only w (snd (handleRepost e postId w))"
  by (simp add: handleRepost_def Let_def notifies_same notifies_insert
      split: option.splits sum.splits)

lemma follow_notifies: "notifies_others_only w (snd (handleFollowToggle e t f w))"
  by (simp add: handleFollowToggle_def Let_def notifies_same notifies_insert
      split: option.splits sum.splits)

lemma tip_notifies: "notifies_others_only w (snd (handleTip e t a w))"
proof (cases "currentWalletAddress (cl w)")
  case None
  then show ?thesis by (simp add: handleTip_def notifies_same)
next
  case (Some me)
  obtain b w0 where lt: "ledger_transfer e me t a w = (b, w0)" by (cases "ledger_transfer e me t a w")
  from ledger_transfer_eq [OF lt] have "db w0 = db w" "cl w0 = cl w" by simp_all
  with Some lt show ?thesis
    by (cases b) (simp_all add: handleTip_def Let_def notifies_same notifies_insert
      split: option.splits sum.splits)
qed

lemma buy_notifies: "notifies_others_only w (snd (handleBuyTicket e t w))"
proof (cases "currentWalletAddress (cl w)")
  case None
  then show ?thesis by (simp add: handleBuyTicket_def notifies_same)
next
  case (Some me)
  obtain b w0 where lt: "ledger_transfer e me t 1 w = (b, w0)" by (cases "ledger_transfer e me t 1 w")
  from ledger_transfer_eq [OF lt] have "db w0 = db w" "cl w0 = cl w" by simp_all
  with Some lt show ?thesis
    by (cases b) (simp_all add: handleBuyTicket_def Let_def notifies_same notifies_insert
      split: option.splits sum.splits)
qed

text \<open>
  Claim C8. Commenting, reposting, following, tipping and buying a ticket append to the
  notifications table only rows whose recipient differs from their sender, the sender being
  the acting client's address; a self-targeted action appends none (it returns early, or
  skips the insert).
\<close>

theorem no_self_notification:
  "notifies_others_only w (snd (handleComment e postId c w))
   \<and> notifies_others_only w (snd (handleRepost e postId w))
   \<and> notifies_others_only w (snd (handleFollowToggle e t f w))
   \<and> notifies_others_only w (snd (handleTip e t a w))
   \<and> notifies_others_only w (snd (handleBuyTicket e t w))"
  by (simp add: comment_notifies repost_notifies follow_notifies tip_notifies buy_notifies)

text \<open>
  Alice comments on her own post: no notification. Bob comments on it: one notification,
  addressed to Alice.
\<close>

theorem no_self_notification_witness:
  "notifications (db (snd (handleComment (calm Confirmed) 1 ''nice''
       (demo_world alice ''Alice_W3'' (wallet_row alice 0 []) [])))) = []
   \<and> added_notifications (demo_world bob ''Bob_Chain'' (wallet_row bob 0 []) [])
        (snd (handleComment (calm Confirmed) 1 ''nice''
          (demo_world bob ''Bob_Chain'' (wallet_row bob 0 []) [])))
      = [\<lparr>recipient_address = alice, n_type = Comment,
           message = ''Bob_Chain commented on your post: '' @ [CHR 0x22] @ ''nice...'' @ [CHR 0x22],
           n_post_id = Some 1, sender_address = bob, read_flag = False\<rparr>]
   \<and> alice \<noteq> bob
   \<and> currentWalletAddress (cl (demo_world bob ''Bob_Chain'' (wallet_row bob 0 []) [])) = Some bob"
proof -
  let ?wa = "demo_world alice ''Alice_W3'' (wallet_row alice 0 []) []"
  let ?wb = "demo_world bob ''Bob_Chain'' (wallet_row bob 0 []) []"
  have own: "notifications (db (snd (handleComment (calm Confirmed) 1 ''nice'' ?wa))) = []"
    by (simp add: handleComment_def calm_def demo_world_def demo_client_def demo_store_def
        currentWalletAddress_def select_single_def single_def hello_post_def update_rows_def
        alice_def bob_def Let_def set_posts_def
        js_add_exact js_sub_exact)
  have other: "notifications (db (snd (handleComment (calm Confirmed) 1 ''nice'' ?wb)))
      = [\<lparr>recipient_address = alice, n_type = Comment,
           message = ''Bob_Chain commented on your post: '' @ [CHR 0x22] @ ''nice...'' @ [CHR 0x22],
           n_post_id = Some 1, sender_address = bob, read_flag = False\<rparr>]"
    by (simp add: handleComment_def calm_def demo_world_def demo_client_def demo_store_def
        currentWalletAddress_def select_single_def single_def hello_post_def update_rows_def
        alice_def bob_def Let_def set_posts_def comment_message_def display_name_def
        new_profile_def
        js_add_exact js_sub_exact)
  have before: "notifications (db ?wb) = []"
    by (simp add: demo_world_def demo_store_def)
  have me: "currentWalletAddress (cl ?wb) = Some bob"
    by (simp add: demo_world_def demo_client_def currentWalletAddress_def)
  have ne: "alice \<noteq> bob" by (simp add: alice_def bob_def)
  from no_self_notification [of ?wb "calm Confirmed" 1 "''nice''" alice False 1]
  have "notifies_others_only ?wb (snd (handleComment (calm Confirmed) 1 ''nice'' ?wb))"
    by simp
  then have "notifications (db (snd (handleComment (calm Confirmed) 1 ''nice'' ?wb)))
      = notifications (db ?wb)
        @ added_notifications ?wb (snd (handleComment (calm Confirmed) 1 ''nice'' ?wb))"
    by (simp add: notifies_others_only_def)
  with other before own me ne show ?thesis by simp
qed

section \<open>Keyed wallet rows\<close>






lemma single_filter_keyed:
  assumes "distinct (map w_wallet_address rows)"
  shows "single (filter (\<lambda>r. w_wallet_address r = a) rows) =
     (case find (\<lambda>r. w_wallet_address r = a) rows of None \<Rightarrow> Inl PGRST116 | Some r \<Rightarrow> Inr r)"
  using assms
proof (induction rows)
  case Nil
  then show ?case by (simp add: single_def)
next
  case (Cons x xs)
  show ?case
  proof (cases "w_wallet_address x = a")
    case True
    with Cons.prems have "a \<notin> set (map w_wallet_address xs)" by auto
    then have "filter (\<lambda>r. w_wallet_address r = a) xs = []"
      by (induction xs) auto
    with True show ?thesis by (simp add: single_def)
  next
    case False
    with Cons show ?thesis by simp
  qed
qed






section \<open>Tipping\<close>

lemma tip_ok_needs:
  assumes ok: "fst (handleTip e r a w) = Ok"
  shows "wallet_ready (cl w) \<and> currentWalletAddress (cl w) \<noteq> Some r
       \<and> \<not> gor_balance (walletData (cl w)) < a \<and> 0 < a \<and> ledger e = Confirmed
       \<and> \<not> fault e 0 \<and> \<not> fault e 1 \<and> \<not> fault e 2"
proof -
  have 1: "wallet_ready (cl w)"
    using ok by (auto simp: handleTip_def wallet_ready_def split: option.splits if_splits)
  then obtain s prof where me: "currentWalletAddress (cl w) = Some s"
    and pr: "currentUserProfile (cl w) = Some prof" and conn: "connected (cl w)"
    by (auto simp: wallet_ready_def)
  have 2: "s \<noteq> r" using ok me pr conn by (auto simp: handleTip_def)
  have 3: "\<not> gor_balance (walletData (cl w)) < a"
    using ok me pr conn 2 by (auto simp: handleTip_def)
  have 4: "0 < a"
  proof (rule ccontr)
    assume "\<not> 0 < a"
    with ok me pr conn 2 3 show False by (simp add: handleTip_def)
  qed
  have 5: "ledger e = Confirmed"
  proof (rule ccontr)
    assume "ledger e \<noteq> Confirmed"
    then obtain w0 where "ledger_transfer e s r a w = (False, w0)"
      using ledger_transfer_failed by blast
    with ok me pr conn 2 3 4 show False by (simp add: handleTip_def)
  qed
  then have lt: "ledger_transfer e s r a w =
      (True, w\<lparr>ledger_log := ledger_log w @ [\<lparr>tr_source = s, tr_destination = r, tr_amount = a\<rparr>]\<rparr>)"
    by (simp add: ledger_transfer_def)
  have 6: "\<not> fault e 0"
  proof
    assume "fault e 0"
    with ok me pr conn 2 3 4 lt show False by (simp add: handleTip_def)
  qed
  have 7: "\<not> fault e 1"
  proof
    assume "fault e 1"
    with ok me pr conn 2 3 4 lt 6 show False
      by (simp add: handleTip_def Let_def select_single_def)
  qed
  have 8: "\<not> fault e 2"
  proof
    assume "fault e 2"
    with ok me pr conn 2 3 4 lt 6 7 show False
      by (simp add: handleTip_def Let_def split: if_splits)
  qed
  from 1 2 3 4 5 6 7 8 me show ?thesis by simp
qed

lemma tip_ok_result:
  assumes ok: "fst (handleTip e r a w) = Ok" and me: "currentWalletAddress (cl w) = Some s"
  shows "wallets (db (snd (handleTip e r a w))) =
     upsert_wallet (holding_default e) r
       (js_add (case single (filter (\<lambda>x. w_wallet_address x = r)
                (update_rows (\<lambda>x. w_wallet_address x = s)
                   (\<lambda>x. x\<lparr>gor_balance := js_sub (gor_balance (walletData (cl w))) a\<rparr>) (wallets (db w)))) of
           Inr x \<Rightarrow> gor_balance x | Inl _ \<Rightarrow> 0) a)
       (update_rows (\<lambda>x. w_wallet_address x = s)
          (\<lambda>x. x\<lparr>gor_balance := js_sub (gor_balance (walletData (cl w))) a\<rparr>) (wallets (db w)))"
proof -
  from tip_ok_needs [OF ok] me have c: "wallet_ready (cl w)" "s \<noteq> r"
    "\<not> gor_balance (walletData (cl w)) < a" "0 < a" "ledger e = Confirmed"
    "\<not> fault e 0" "\<not> fault e 1" "\<not> fault e 2" by auto
  from c(1) obtain prof where pr: "currentUserProfile (cl w) = Some prof" and conn: "connected (cl w)"
    by (auto simp: wallet_ready_def)
  from c(5) have lt: "ledger_transfer e s r a w =
      (True, w\<lparr>ledger_log := ledger_log w @ [\<lparr>tr_source = s, tr_destination = r, tr_amount = a\<rparr>]\<rparr>)"
    by (simp add: ledger_transfer_def)
  have nf: "\<not> (case single (filter (\<lambda>x. w_wallet_address x = r) rows) of
                 Inl err \<Rightarrow> err \<noteq> PGRST116 | Inr x \<Rightarrow> False)" for rows :: "wallet list"
    by (simp add: single_def split: list.splits)
  from me pr conn c lt nf show ?thesis
    by (simp add: handleTip_def Let_def select_single_def)
qed






text \<open>
  The bound is needed. Sender and recipient both hold \<open>2 ^ 53\<close> and the cache is up to
  date; after a tip of 1 the sender holds \<open>2 ^ 53 - 1\<close>, the recipient still
  \<open>2 ^ 53\<close> (\<^verbatim>\<open>2 ** 53 + 1\<close> is \<^verbatim>\<open>2 ** 53\<close>), and the total has dropped by 1.
\<close>

lemma tip_rounds_above_2_53:
  "gor_balance (walletData (cl (demo_world alice ''Alice_W3'' (wallet_row alice 9007199254740992 [])
       [wallet_row alice 9007199254740992 [], wallet_row bob 9007199254740992 []])))
     = mirrored_balance (db (demo_world alice ''Alice_W3'' (wallet_row alice 9007199254740992 [])
       [wallet_row alice 9007199254740992 [], wallet_row bob 9007199254740992 []])) alice
   \<and> mirrored_balance (db (demo_world alice ''Alice_W3'' (wallet_row alice 9007199254740992 [])
       [wallet_row alice 9007199254740992 [], wallet_row bob 9007199254740992 []])) bob
     = 9007199254740992
   \<and> total_balance (db (demo_world alice ''Alice_W3'' (wallet_row alice 9007199254740992 [])
       [wallet_row alice 9007199254740992 [], wallet_row bob 9007199254740992 []]))
     = 18014398509481984
   \<and> fst (handleTip (calm Confirmed) bob 1
       (demo_world alice ''Alice_W3'' (wallet_row alice 9007199254740992 [])
         [wallet_row alice 9007199254740992 [], wallet_row bob 9007199254740992 []])) = Ok
   \<and> wallets (db (snd (handleTip (calm Confirmed) bob 1
       (demo_world alice ''Alice_W3'' (wallet_row alice 9007199254740992 [])
         [wallet_row alice 9007199254740992 [], wallet_row bob 9007199254740992 []]))))
     = [wallet_row alice 9007199254740991 [], wallet_row bob 9007199254740992 []]
   \<and> total_balance (db (snd (handleTip (calm Confirmed) bob 1
       (demo_world alice ''Alice_W3'' (wallet_row alice 9007199254740992 [])
         [wallet_row alice 9007199254740992 [], wallet_row bob 9007199254740992 []]))))
     = 18014398509481983"
proof -
  let ?w = "demo_world alice ''Alice_W3'' (wallet_row alice 9007199254740992 [])
              [wallet_row alice 9007199254740992 [], wallet_row bob 9007199254740992 []]"
  have down: "js_sub 9007199254740992 1 = 9007199254740991" by (simp add: js_sub_exact)
  have before: "gor_balance (walletData (cl ?w)) = mirrored_balance (db ?w) alice"
    "mirrored_balance (db ?w) bob = 9007199254740992"
    "total_balance (db ?w) = 18014398509481984"
    by (simp_all add: mirrored_balance_def stored_wallet_def total_balance_def demo_world_def
        demo_store_def demo_client_def wallet_row_def alice_def bob_def)
  have tip: "fst (handleTip (calm Confirmed) bob 1 ?w) = Ok"
    "wallets (db (snd (handleTip (calm Confirmed) bob 1 ?w)))
       = [wallet_row alice 9007199254740991 [], wallet_row bob 9007199254740992 []]"
    by (simp_all add: handleTip_def calm_def demo_world_def demo_client_def demo_store_def
        currentWalletAddress_def ledger_transfer_def select_single_def single_def
        update_rows_def upsert_wallet_def wallet_row_def alice_def bob_def Let_def
        down js_steps_above_2_53)
  have after: "total_balance (db (snd (handleTip (calm Confirmed) bob 1 ?w))) = 18014398509481983"
    unfolding total_balance_def tip by (simp add: wallet_row_def)
  show ?thesis
    by (intro conjI before tip after)
qed

section \<open>Buying and selling tickets\<close>

lemma buy_holding_ledger_log [simp]:
  "buy_holding e t (w\<lparr>ledger_log := l\<rparr>) = buy_holding e t w"
  by (simp add: buy_holding_def Let_def split: option.splits)

lemma buy_ok_result:
  assumes ok: "fst (handleBuyTicket e t w) = Ok" and me: "currentWalletAddress (cl w) = Some s"
  obtains h pt where
    "s \<noteq> t" "\<not> gor_balance (walletData (cl w)) < 1" "wallet_ready (cl w)" "ledger e = Confirmed"
    "buy_holding e t w = Inr h"
    "select_single False (\<lambda>p. p_wallet_address p = t) (profiles (db w)) = Inr pt"
    "wallets (db (snd (handleBuyTicket e t w))) =
       update_rows (\<lambda>r. w_wallet_address r = s)
         (\<lambda>r. r\<lparr>gor_balance := js_sub (gor_balance (walletData (cl w))) 1, tickets_holding := h\<rparr>)
         (wallets (db w))"
    "profiles (db (snd (handleBuyTicket e t w))) =
       update_rows (\<lambda>p. p_wallet_address p = t)
         (\<lambda>p. p\<lparr>tickets_earned := js_add (tickets_earned pt) 1\<rparr>) (profiles (db w))"
    "cl (snd (handleBuyTicket e t w)) = cl w"
proof -
  have 1: "wallet_ready (cl w)"
    using ok by (auto simp: handleBuyTicket_def wallet_ready_def split: option.splits if_splits)
  with me obtain prof where pr: "currentUserProfile (cl w) = Some prof" and conn: "connected (cl w)"
    by (auto simp: wallet_ready_def)
  have 2: "s \<noteq> t" using ok me pr conn by (auto simp: handleBuyTicket_def)
  have 3: "\<not> gor_balance (walletData (cl w)) < 1"
  proof
    assume "gor_balance (walletData (cl w)) < 1"
    with ok me pr conn 2 show False by (simp add: handleBuyTicket_def)
  qed
  have 5: "ledger e = Confirmed"
  proof (rule ccontr)
    assume "ledger e \<noteq> Confirmed"
    then obtain w0 where "ledger_transfer e s t 1 w = (False, w0)"
      using ledger_transfer_failed by blast
    with ok me pr conn 2 3 show False by (simp add: handleBuyTicket_def)
  qed
  then have lt: "ledger_transfer e s t 1 w =
      (True, w\<lparr>ledger_log := ledger_log w @ [\<lparr>tr_source = s, tr_destination = t, tr_amount = 1\<rparr>]\<rparr>)"
    by (simp add: ledger_transfer_def)
  obtain h where h: "buy_holding e t w = Inr h"
  proof (cases "buy_holding e t w")
    case (Inl err)
    with ok me pr conn 2 3 lt have False by (simp add: handleBuyTicket_def)
    then show ?thesis ..
  next
    case (Inr h)
    then show ?thesis by (rule that)
  qed
  have 6: "\<not> fault e 1"
  proof
    assume "fault e 1"
    with ok me pr conn 2 3 lt h show False by (simp add: handleBuyTicket_def)
  qed
  have 7: "\<not> fault e 2"
  proof
    assume "fault e 2"
    with ok me pr conn 2 3 lt h 6 show False
      by (simp add: handleBuyTicket_def Let_def select_single_def)
  qed
  obtain pt where pt: "select_single False (\<lambda>p. p_wallet_address p = t) (profiles (db w)) = Inr pt"
  proof (cases "select_single False (\<lambda>p. p_wallet_address p = t) (profiles (db w))")
    case (Inl err)
    with ok me pr conn 2 3 lt h 6 7 have False by (simp add: handleBuyTicket_def Let_def)
    then show ?thesis ..
  next
    case (Inr pt)
    then show ?thesis by (rule that)
  qed
  have 8: "\<not> fault e 3"
  proof
    assume "fault e 3"
    with ok me pr conn 2 3 lt h 6 7 pt show False by (simp add: handleBuyTicket_def Let_def)
  qed
  have "wallets (db (snd (handleBuyTicket e t w))) =
       update_rows (\<lambda>r. w_wallet_address r = s)
         (\<lambda>r. r\<lparr>gor_balance := js_sub (gor_balance (walletData (cl w))) 1, tickets_holding := h\<rparr>)
         (wallets (db w))"
    "profiles (db (snd (handleBuyTicket e t w))) =
       update_rows (\<lambda>p. p_wallet_address p = t)
         (\<lambda>p. p\<lparr>tickets_earned := js_add (tickets_earned pt) 1\<rparr>) (profiles (db w))"
    "cl (snd (handleBuyTicket e t w)) = cl w"
    using me pr conn 2 3 lt h 6 7 pt 8 by (simp_all add: handleBuyTicket_def Let_def)
  with 2 3 1 5 h pt show ?thesis by (rule that [of h pt])
qed

text \<open>
  What a successful \<^verbatim>\<open>handleSellTicket\<close> has found and written: the balance and the
  holdings list come from the cached \<^verbatim>\<open>walletData\<close>.
\<close>

lemma sell_ok_result:
  assumes ok: "fst (handleSellTicket e t w) = Ok" and me: "currentWalletAddress (cl w) = Some s"
  obtains i pt where
    "wallet_ready (cl w)"
    "findIndex (\<lambda>k. t_wallet_address k = t) (tickets_holding (walletData (cl w))) = Some i"
    "count (tickets_holding (walletData (cl w)) ! i) \<noteq> 0"
    "select_single False (\<lambda>p. p_wallet_address p = t) (profiles (db w)) = Inr pt"
    "wallets (db (snd (handleSellTicket e t w))) =
       update_rows (\<lambda>r. w_wallet_address r = s)
         (\<lambda>r. r\<lparr>gor_balance := js_add (gor_balance (walletData (cl w))) 1,
                 tickets_holding :=
                   (let holding = tickets_holding (walletData (cl w));
                        decremented = holding[i := (holding ! i)\<lparr>count := js_sub (count (holding ! i)) 1\<rparr>]
                    in if count (decremented ! i) = 0 then splice1 i decremented else decremented)\<rparr>)
         (wallets (db w))"
    "profiles (db (snd (handleSellTicket e t w))) =
       update_rows (\<lambda>p. p_wallet_address p = t)
         (\<lambda>p. p\<lparr>tickets_earned := max 0 (js_sub (tickets_earned pt) 1)\<rparr>) (profiles (db w))"
proof -
  let ?holding = "tickets_holding (walletData (cl w))"
  have 1: "wallet_ready (cl w)"
    using ok by (auto simp: handleSellTicket_def wallet_ready_def split: option.splits if_splits)
  with me obtain prof where pr: "currentUserProfile (cl w) = Some prof" and conn: "connected (cl w)"
    by (auto simp: wallet_ready_def)
  obtain i where i: "findIndex (\<lambda>k. t_wallet_address k = t) ?holding = Some i"
  proof (cases "findIndex (\<lambda>k. t_wallet_address k = t) ?holding")
    case None
    with ok me pr conn have False by (simp add: handleSellTicket_def)
    then show ?thesis ..
  next
    case (Some i)
    then show ?thesis by (rule that)
  qed
  have 2: "count (?holding ! i) \<noteq> 0"
  proof
    assume "count (?holding ! i) = 0"
    with ok me pr conn i show False by (simp add: handleSellTicket_def)
  qed
  have 3: "\<not> fault e 0"
  proof
    assume "fault e 0"
    with ok me pr conn i 2 show False by (simp add: handleSellTicket_def Let_def)
  qed
  have 4: "\<not> fault e 1"
  proof
    assume "fault e 1"
    with ok me pr conn i 2 3 show False
      by (simp add: handleSellTicket_def Let_def select_single_def)
  qed
  obtain pt where pt: "select_single False (\<lambda>p. p_wallet_address p = t) (profiles (db w)) = Inr pt"
  proof (cases "select_single False (\<lambda>p. p_wallet_address p = t) (profiles (db w))")
    case (Inl err)
    with ok me pr conn i 2 3 4 have False by (simp add: handleSellTicket_def Let_def)
    then show ?thesis ..
  next
    case (Inr pt)
    then show ?thesis by (rule that)
  qed
  have 5: "\<not> fault e 2"
  proof
    assume "fault e 2"
    with ok me pr conn i 2 3 4 pt show False by (simp add: handleSellTicket_def Let_def)
  qed
  have "wallets (db (snd (handleSellTicket e t w))) =
       update_rows (\<lambda>r. w_wallet_address r = s)
         (\<lambda>r. r\<lparr>gor_balance := js_add (gor_balance (walletData (cl w))) 1,
                 tickets_holding :=
                   (let holding = tickets_holding (walletData (cl w));
                        decremented = holding[i := (holding ! i)\<lparr>count := js_sub (count (holding ! i)) 1\<rparr>]
                    in if count (decremented ! i) = 0 then splice1 i decremented else decremented)\<rparr>)
         (wallets (db w))"
    "profiles (db (snd (handleSellTicket e t w))) =
       update_rows (\<lambda>p. p_wallet_address p = t)
         (\<lambda>p. p\<lparr>tickets_earned := max 0 (js_sub (tickets_earned pt) 1)\<rparr>) (profiles (db w))"
    using me pr conn i 2 3 4 pt 5 by (simp_all add: handleSellTicket_def Let_def)
  with 1 i 2 pt show ?thesis by (rule that [of i pt])
qed

section \<open>Where the settlement handlers take the balance from\<close>

lemma upsert_wallet_others:
  "x \<in> set (upsert_wallet d a b rows) \<Longrightarrow> w_wallet_address x \<noteq> a \<Longrightarrow> x \<in> set rows"
  by (auto simp: upsert_wallet_def update_rows_def split: if_splits)

lemma tip_ledger_log:
  assumes me: "currentWalletAddress (cl w) = Some s"
  shows "ledger_log (snd (handleTip e r a w)) =
       (if wallet_ready (cl w) \<and> s \<noteq> r \<and> \<not> gor_balance (walletData (cl w)) < a \<and> 0 < a
           \<and> ledger e \<noteq> PrepareFailed
        then ledger_log w @ [\<lparr>tr_source = s, tr_destination = r, tr_amount = a\<rparr>]
        else ledger_log w)"
  using me
  by (cases "ledger e")
     (simp_all add: handleTip_def wallet_ready_def ledger_transfer_def Let_def
        split: option.splits)

lemma buy_ledger_log:
  assumes me: "currentWalletAddress (cl w) = Some s"
  shows "ledger_log (snd (handleBuyTicket e r w)) =
       (if wallet_ready (cl w) \<and> s \<noteq> r \<and> \<not> gor_balance (walletData (cl w)) < 1
           \<and> ledger e \<noteq> PrepareFailed
        then ledger_log w @ [\<lparr>tr_source = s, tr_destination = r, tr_amount = 1\<rparr>]
        else ledger_log w)"
  using me
  by (cases "ledger e")
     (simp_all add: handleBuyTicket_def wallet_ready_def ledger_transfer_def Let_def
        split: option.splits sum.splits)

lemma tip_sender_rows:
  assumes me: "currentWalletAddress (cl w) = Some s" and ok: "fst (handleTip e r a w) = Ok"
  shows "\<forall>x \<in> set (wallets (db (snd (handleTip e r a w)))).
           w_wallet_address x = s \<longrightarrow> gor_balance x = js_sub (gor_balance (walletData (cl w))) a"
proof (intro ballI impI)
  fix x
  let ?f = "\<lambda>x. x\<lparr>gor_balance := js_sub (gor_balance (walletData (cl w))) a\<rparr>"
  let ?W1 = "update_rows (\<lambda>x. w_wallet_address x = s) ?f (wallets (db w))"
  assume x: "x \<in> set (wallets (db (snd (handleTip e r a w))))" and k: "w_wallet_address x = s"
  from tip_ok_needs [OF ok] me have ne: "s \<noteq> r" by auto
  from x obtain d b where "x \<in> set (upsert_wallet d r b ?W1)"
    by (simp only: tip_ok_result [OF ok me])
  moreover from k ne have "w_wallet_address x \<noteq> r" by simp
  ultimately have "x \<in> set ?W1" by (rule upsert_wallet_others)
  from in_update_rows [OF this] k
  show "gor_balance x = js_sub (gor_balance (walletData (cl w))) a"
    by (elim disjE conjE bexE) simp_all
qed

lemma buy_sender_rows:
  assumes me: "currentWalletAddress (cl w) = Some s" and ok: "fst (handleBuyTicket e r w) = Ok"
  shows "\<forall>x \<in> set (wallets (db (snd (handleBuyTicket e r w)))).
           w_wallet_address x = s \<longrightarrow> gor_balance x = js_sub (gor_balance (walletData (cl w))) 1"
proof (intro ballI impI)
  fix x
  assume x: "x \<in> set (wallets (db (snd (handleBuyTicket e r w))))" and k: "w_wallet_address x = s"
  from buy_ok_result [OF ok me] obtain h where
    "wallets (db (snd (handleBuyTicket e r w))) =
       update_rows (\<lambda>r. w_wallet_address r = s)
         (\<lambda>r. r\<lparr>gor_balance := js_sub (gor_balance (walletData (cl w))) 1, tickets_holding := h\<rparr>)
         (wallets (db w))"
    by blast
  with x have "x \<in> set (update_rows (\<lambda>r. w_wallet_address r = s)
         (\<lambda>r. r\<lparr>gor_balance := js_sub (gor_balance (walletData (cl w))) 1, tickets_holding := h\<rparr>)
         (wallets (db w)))" by simp
  from in_update_rows [OF this] k
  show "gor_balance x = js_sub (gor_balance (walletData (cl w))) 1"
    by (elim disjE conjE bexE) simp_all
qed

text \<open>
  Claim C6, as amended. In \<^verbatim>\<open>handleTip\<close> and \<^verbatim>\<open>handleBuyTicket\<close> the balance precheck
  that gates the ledger submission, and the baseline of the sender's new mirrored balance,
  are both \<^verbatim>\<open>walletData.gor_balance\<close>, the balance of the client's cached wallet record;
  the stored wallet record of the sender is not read. An instruction reaches the ledger
  exactly when the client is ready, the target is someone else, the cached balance covers
  the amount (1 for a ticket), the amount is positive and the preparation does not throw;
  after a successful settlement every stored row of the sender holds the cached balance
  minus the amount (the difference as doubles give it, \<open>js_sub\<close>).
\<close>

theorem settlement_balance_from_cache:
  assumes me: "currentWalletAddress (cl w) = Some s"
  shows "ledger_log (snd (handleTip e r a w)) =
       (if wallet_ready (cl w) \<and> s \<noteq> r \<and> \<not> gor_balance (walletData (cl w)) < a \<and> 0 < a
           \<and> ledger e \<noteq> PrepareFailed
        then ledger_log w @ [\<lparr>tr_source = s, tr_destination = r, tr_amount = a\<rparr>]
        else ledger_log w)
     \<and> (fst (handleTip e r a w) = Ok \<longrightarrow>
          (\<forall>x \<in> set (wallets (db (snd (handleTip e r a w)))).
             w_wallet_address x = s \<longrightarrow> gor_balance x = js_sub (gor_balance (walletData (cl w))) a))
     \<and> ledger_log (snd (handleBuyTicket e r w)) =
       (if wallet_ready (cl w) \<and> s \<noteq> r \<and> \<not> gor_balance (walletData (cl w)) < 1
           \<and> ledger e \<noteq> PrepareFailed
        then ledger_log w @ [\<lparr>tr_source = s, tr_destination = r, tr_amount = 1\<rparr>]
        else ledger_log w)
     \<and> (fst (handleBuyTicket e r w) = Ok \<longrightarrow>
          (\<forall>x \<in> set (wallets (db (snd (handleBuyTicket e r w)))).
             w_wallet_address x = s \<longrightarrow> gor_balance x = js_sub (gor_balance (walletData (cl w))) 1))"
  using tip_ledger_log [OF me] buy_ledger_log [OF me] tip_sender_rows [OF me] buy_sender_rows [OF me]
  by blast


text \<open>Alice, cached and stored balance 5, tips Bob 3, and buys a ticket of Bob.\<close>

theorem settlement_balance_from_cache_witness:
  "currentWalletAddress (cl (demo_world alice ''Alice_W3'' (wallet_row alice 5 [])
       [wallet_row alice 5 []])) = Some alice
   \<and> handleTip (calm Confirmed) bob 3
       (demo_world alice ''Alice_W3'' (wallet_row alice 5 []) [wallet_row alice 5 []])
     = (Ok, insert_notification False
         \<lparr>recipient_address = bob, n_type = Tip, message = ''Alice_W3 tipped you 3 GOR!'',
           n_post_id = None, sender_address = alice, read_flag = False\<rparr>
         (set_wallets [wallet_row alice 2 [], wallet_row bob 3 []]
           ((demo_world alice ''Alice_W3'' (wallet_row alice 5 []) [wallet_row alice 5 []])
              \<lparr>ledger_log := [\<lparr>tr_source = alice, tr_destination = bob, tr_amount = 3\<rparr>]\<rparr>)))
   \<and> fst (handleBuyTicket (calm Confirmed) bob
       (demo_world alice ''Alice_W3'' (wallet_row alice 5 []) [wallet_row alice 5 []])) = Ok
   \<and> wallets (db (snd (handleBuyTicket (calm Confirmed) bob
       (demo_world alice ''Alice_W3'' (wallet_row alice 5 []) [wallet_row alice 5 []]))))
     = [wallet_row alice 4 [bob_ticket 1]]"
proof -
  let ?w = "demo_world alice ''Alice_W3'' (wallet_row alice 5 []) [wallet_row alice 5 []]"
  have me: "currentWalletAddress (cl ?w) = Some alice"
    by (simp add: demo_world_def demo_client_def currentWalletAddress_def)
  have three: "decimal 3 = ''3''" by code_simp
  have tip: "handleTip (calm Confirmed) bob 3 ?w
     = (Ok, insert_notification False
         \<lparr>recipient_address = bob, n_type = Tip, message = ''Alice_W3 tipped you 3 GOR!'',
           n_post_id = None, sender_address = alice, read_flag = False\<rparr>
         (set_wallets [wallet_row alice 2 [], wallet_row bob 3 []]
           (?w\<lparr>ledger_log := [\<lparr>tr_source = alice, tr_destination = bob, tr_amount = 3\<rparr>]\<rparr>)))"
    by (simp add: handleTip_def calm_def demo_world_def demo_client_def demo_store_def
        currentWalletAddress_def ledger_transfer_def select_single_def single_def
        update_rows_def upsert_wallet_def wallet_row_def alice_def bob_def Let_def
        display_name_def new_profile_def three set_wallets_def insert_notification_def
        js_add_exact js_sub_exact)
  have buy: "fst (handleBuyTicket (calm Confirmed) bob ?w) = Ok"
    "wallets (db (snd (handleBuyTicket (calm Confirmed) bob ?w))) = [wallet_row alice 4 [bob_ticket 1]]"
    by (simp_all add: handleBuyTicket_def buy_holding_def calm_def demo_world_def demo_client_def
        demo_store_def currentWalletAddress_def ledger_transfer_def select_single_def single_def
        update_rows_def wallet_row_def bob_ticket_def alice_def bob_def Let_def new_profile_def
        js_add_exact js_sub_exact)
  from settlement_balance_from_cache [OF me, of "calm Confirmed" bob 3] me tip buy
  show ?thesis by simp
qed

text \<open>
  The store holds balance 0 for Alice, her client still shows 5. A tip of 3 and a ticket
  purchase both pass the precheck and reach the ledger, and the stored balance becomes
  5 - 3 = 2, respectively 5 - 1 = 4: the record in the store is not consulted.
\<close>

theorem settlement_balance_from_cache_counterexample:
  "mirrored_balance (db (demo_world alice ''Alice_W3'' (wallet_row alice 5 [])
       [wallet_row alice 0 []])) alice = 0
   \<and> mirrored_balance (db (demo_world alice ''Alice_W3'' (wallet_row alice 5 [])
       [wallet_row alice 0 []])) alice < 1
   \<and> fst (handleTip (calm Confirmed) bob 3
       (demo_world alice ''Alice_W3'' (wallet_row alice 5 []) [wallet_row alice 0 []])) = Ok
   \<and> ledger_log (snd (handleTip (calm Confirmed) bob 3
       (demo_world alice ''Alice_W3'' (wallet_row alice 5 []) [wallet_row alice 0 []])))
     = [\<lparr>tr_source = alice, tr_destination = bob, tr_amount = 3\<rparr>]
   \<and> mirrored_balance (db (snd (handleTip (calm Confirmed) bob 3
       (demo_world alice ''Alice_W3'' (wallet_row alice 5 []) [wallet_row alice 0 []])))) alice = 2
   \<and> fst (handleBuyTicket (calm Confirmed) bob
       (demo_world alice ''Alice_W3'' (wallet_row alice 5 []) [wallet_row alice 0 []])) = Ok
   \<and> ledger_log (snd (handleBuyTicket (calm Confirmed) bob
       (demo_world alice ''Alice_W3'' (wallet_row alice 5 []) [wallet_row alice 0 []])))
     = [\<lparr>tr_source = alice, tr_destination = bob, tr_amount = 1\<rparr>]
   \<and> mirrored_balance (db (snd (handleBuyTicket (calm Confirmed) bob
       (demo_world alice ''Alice_W3'' (wallet_row alice 5 []) [wallet_row alice 0 []])))) alice = 4"
proof -
  let ?w = "demo_world alice ''Alice_W3'' (wallet_row alice 5 []) [wallet_row alice 0 []]"
  have before: "wallets (db ?w) = [wallet_row alice 0 []]"
    by (simp add: demo_world_def demo_store_def)
  have tip: "fst (handleTip (calm Confirmed) bob 3 ?w) = Ok"
    "ledger_log (snd (handleTip (calm Confirmed) bob 3 ?w))
       = [\<lparr>tr_source = alice, tr_destination = bob, tr_amount = 3\<rparr>]"
    "wallets (db (snd (handleTip (calm Confirmed) bob 3 ?w)))
       = [wallet_row alice 2 [], wallet_row bob 3 []]"
    by (simp_all add: handleTip_def calm_def demo_world_def demo_client_def demo_store_def
        currentWalletAddress_def ledger_transfer_def select_single_def single_def
        update_rows_def upsert_wallet_def wallet_row_def alice_def bob_def Let_def
        js_add_exact js_sub_exact)
  have buy: "fst (handleBuyTicket (calm Confirmed) bob ?w) = Ok"
    "ledger_log (snd (handleBuyTicket (calm Confirmed) bob ?w))
       = [\<lparr>tr_source = alice, tr_destination = bob, tr_amount = 1\<rparr>]"
    "wallets (db (snd (handleBuyTicket (calm Confirmed) bob ?w))) = [wallet_row alice 4 [bob_ticket 1]]"
    by (simp_all add: handleBuyTicket_def buy_holding_def calm_def demo_world_def demo_client_def
        demo_store_def currentWalletAddress_def ledger_transfer_def select_single_def single_def
        update_rows_def wallet_row_def bob_ticket_def alice_def bob_def Let_def new_profile_def
        js_add_exact js_sub_exact)
  have "mirrored_balance (db ?w) alice = 0"
    unfolding mirrored_balance_def stored_wallet_def before by (simp add: wallet_row_def)
  moreover have "mirrored_balance (db (snd (handleTip (calm Confirmed) bob 3 ?w))) alice = 2"
    unfolding mirrored_balance_def stored_wallet_def tip by (simp add: wallet_row_def)
  moreover have "mirrored_balance (db (snd (handleBuyTicket (calm Confirmed) bob ?w))) alice = 4"
    unfolding mirrored_balance_def stored_wallet_def buy by (simp add: wallet_row_def)
  ultimately show ?thesis using tip(1,2) buy(1,2) by simp
qed

section \<open>How the settlement handlers write the wallet row\<close>

lemma select_hard_failure:
  "(case select_single f p rows of Inl err \<Rightarrow> err \<noteq> PGRST116 | Inr x \<Rightarrow> False) = f"
  by (simp add: select_single_def single_def split: list.splits)

lemma buy_holding_set_wallets [simp]:
  "buy_holding e t (set_wallets ws w) = buy_holding e t w"
  by (simp add: buy_holding_def Let_def split: option.splits)

lemma tip_outcome_ignores_wallets:
  "fst (handleTip e r a (set_wallets ws w)) = fst (handleTip e r a w)"
  by (cases "ledger e")
     (simp_all add: handleTip_def ledger_transfer_def Let_def select_hard_failure
        split: option.splits)

lemma buy_outcome_ignores_wallets:
  "fst (handleBuyTicket e t (set_wallets ws w)) = fst (handleBuyTicket e t w)"
  by (cases "ledger e")
     (simp_all add: handleBuyTicket_def ledger_transfer_def Let_def
        split: option.splits sum.splits)

lemma sell_outcome_ignores_wallets:
  "fst (handleSellTicket e t (set_wallets ws w)) = fst (handleSellTicket e t w)"
  by (simp add: handleSellTicket_def Let_def split: option.splits sum.splits)


lemma filter_update_rows_other:
  assumes "\<And>x. q (f x) = q x" and "\<And>x. p x \<Longrightarrow> \<not> q x"
  shows "filter q (update_rows p f rows) = filter q rows"
  using assms by (induction rows) (simp_all add: update_rows_def)

text \<open>
  The wallets table after a successful tip: the sender's rows patched with the cached
  balance minus the amount, then the recipient's row upserted with the balance read
  from the store plus the amount.
\<close>

lemma tip_writes:
  assumes me: "currentWalletAddress (cl w) = Some s" and ok: "fst (handleTip e r a w) = Ok"
  shows "wallets (db (snd (handleTip e r a w))) =
     upsert_wallet (holding_default e) r
       (js_add (case single (filter (\<lambda>x. w_wallet_address x = r) (wallets (db w))) of
                  Inr x \<Rightarrow> gor_balance x | Inl _ \<Rightarrow> 0) a)
       (update_rows (\<lambda>x. w_wallet_address x = s)
          (\<lambda>x. x\<lparr>gor_balance := js_sub (gor_balance (walletData (cl w))) a\<rparr>) (wallets (db w)))"
proof -
  from tip_ok_needs [OF ok] me have ne: "s \<noteq> r" by auto
  have same: "filter (\<lambda>x. w_wallet_address x = r)
        (update_rows (\<lambda>x. w_wallet_address x = s)
           (\<lambda>x. x\<lparr>gor_balance := js_sub (gor_balance (walletData (cl w))) a\<rparr>) (wallets (db w)))
      = filter (\<lambda>x. w_wallet_address x = r) (wallets (db w))"
    by (rule filter_update_rows_other) (use ne in simp_all)
  show ?thesis
    using tip_ok_result [OF ok me] unfolding same .
qed

text \<open>
  The wallets and profiles tables after a successful purchase: the holdings list written
  is the cached list with the entry for the target counted up, or extended by a new
  entry that carries the target's user name.
\<close>

lemma buy_writes:
  assumes me: "currentWalletAddress (cl w) = Some s" and ok: "fst (handleBuyTicket e t w) = Ok"
  shows "\<exists>pt. select_single False (\<lambda>p. p_wallet_address p = t) (profiles (db w)) = Inr pt
     \<and> wallets (db (snd (handleBuyTicket e t w))) =
         update_rows (\<lambda>x. w_wallet_address x = s)
           (\<lambda>x. x\<lparr>gor_balance := js_sub (gor_balance (walletData (cl w))) 1,
                   tickets_holding :=
                     (case findIndex (\<lambda>k. t_wallet_address k = t)
                             (tickets_holding (walletData (cl w))) of
                        Some i \<Rightarrow>
                          (tickets_holding (walletData (cl w)))
                            [i := (tickets_holding (walletData (cl w)) ! i)
                               \<lparr>count := js_add (count (tickets_holding (walletData (cl w)) ! i)) 1\<rparr>]
                      | None \<Rightarrow>
                          tickets_holding (walletData (cl w)) @
                            [\<lparr>t_wallet_address = t, count = 1, t_username = username pt\<rparr>])\<rparr>)
           (wallets (db w))
     \<and> profiles (db (snd (handleBuyTicket e t w))) =
         update_rows (\<lambda>p. p_wallet_address p = t)
           (\<lambda>p. p\<lparr>tickets_earned := js_add (tickets_earned pt) 1\<rparr>) (profiles (db w))"
proof -
  let ?H = "tickets_holding (walletData (cl w))"
  from buy_ok_result [OF ok me] obtain h pt where
    h: "buy_holding e t w = Inr h"
    and pt: "select_single False (\<lambda>p. p_wallet_address p = t) (profiles (db w)) = Inr pt"
    and W: "wallets (db (snd (handleBuyTicket e t w))) =
       update_rows (\<lambda>r. w_wallet_address r = s)
         (\<lambda>r. r\<lparr>gor_balance := js_sub (gor_balance (walletData (cl w))) 1, tickets_holding := h\<rparr>)
         (wallets (db w))"
    and P: "profiles (db (snd (handleBuyTicket e t w))) =
       update_rows (\<lambda>p. p_wallet_address p = t)
         (\<lambda>p. p\<lparr>tickets_earned := js_add (tickets_earned pt) 1\<rparr>) (profiles (db w))"
    by blast
  have hh: "h = (case findIndex (\<lambda>k. t_wallet_address k = t) ?H of
                   Some i \<Rightarrow> ?H[i := (?H ! i)\<lparr>count := js_add (count (?H ! i)) 1\<rparr>]
                 | None \<Rightarrow> ?H @ [\<lparr>t_wallet_address = t, count = 1, t_username = username pt\<rparr>])"
  proof (cases "findIndex (\<lambda>k. t_wallet_address k = t) ?H")
    case None
    show ?thesis
    proof (cases "fault e 0")
      case True
      with h None show ?thesis by (simp add: buy_holding_def Let_def select_single_def)
    next
      case False
      with h None pt show ?thesis by (simp add: buy_holding_def Let_def)
    qed
  next
    case (Some i)
    with h show ?thesis by (simp add: buy_holding_def Let_def)
  qed
  from pt W P show ?thesis unfolding hh by blast
qed

text \<open>
  The wallets and profiles tables after a successful sale: the holdings list written is
  the cached list with the entry for the target counted down, and removed at count 0.
\<close>

lemma sell_writes:
  assumes me: "currentWalletAddress (cl w) = Some s" and ok: "fst (handleSellTicket e t w) = Ok"
  shows "\<exists>i pt. findIndex (\<lambda>k. t_wallet_address k = t) (tickets_holding (walletData (cl w))) = Some i
     \<and> select_single False (\<lambda>p. p_wallet_address p = t) (profiles (db w)) = Inr pt
     \<and> wallets (db (snd (handleSellTicket e t w))) =
         update_rows (\<lambda>x. w_wallet_address x = s)
           (\<lambda>x. x\<lparr>gor_balance := js_add (gor_balance (walletData (cl w))) 1,
                   tickets_holding :=
                     (let holding = tickets_holding (walletData (cl w));
                          decremented = holding[i := (holding ! i)
                                           \<lparr>count := js_sub (count (holding ! i)) 1\<rparr>]
                      in if count (decremented ! i) = 0 then splice1 i decremented
                         else decremented)\<rparr>)
           (wallets (db w))
     \<and> profiles (db (snd (handleSellTicket e t w))) =
         update_rows (\<lambda>p. p_wallet_address p = t)
           (\<lambda>p. p\<lparr>tickets_earned := max 0 (js_sub (tickets_earned pt) 1)\<rparr>) (profiles (db w))"
  using sell_ok_result [OF ok me] by metis

text \<open>
  Claim C7, as amended. No write of a settlement operation (tip, buyTicket, sellTicket)
  is conditional on the record last observed; each is an update selected by the key
  alone (\<^verbatim>\<open>update(..).eq('wallet_address', ..)\<close>), or for the tip recipient an upsert on
  conflict \<^verbatim>\<open>wallet_address\<close>.

  \<^item> Whether the operation succeeds does not depend on what the \<^verbatim>\<open>wallets\<close> table holds:
    there is no stale-update failure.
  \<^item> After a successful tip of \<open>a\<close> from \<open>s\<close> to \<open>r\<close> the \<^verbatim>\<open>wallets\<close> table is the table before
    with the balance of every row of \<open>s\<close> replaced by the cached \<^verbatim>\<open>walletData.gor_balance\<close>
    minus \<open>a\<close>, and then the recipient upserted: the balance of every row of \<open>r\<close> replaced
    by the balance just read from the store (0 when the read finds no single row) plus
    \<open>a\<close>, or, when \<open>r\<close> has no row, a new row with that balance appended.
  \<^item> After a successful purchase of a ticket of \<open>r\<close> by \<open>s\<close> the \<^verbatim>\<open>wallets\<close> table is the
    table before with every row of \<open>s\<close> given the cached balance minus 1 and the cached
    holdings list with the entry for \<open>r\<close> counted up (or a new entry of count 1 with the
    user name of \<open>r\<close> appended); the \<^verbatim>\<open>profiles\<close> table is the table before with
    \<^verbatim>\<open>tickets_earned\<close> of every row of \<open>r\<close> set to the value just read from the store plus 1.
  \<^item> After a successful sale the \<^verbatim>\<open>wallets\<close> table is the table before with every row of
    \<open>s\<close> given the cached balance plus 1 and the cached holdings list with the entry for
    \<open>r\<close> counted down (removed at count 0); \<^verbatim>\<open>tickets_earned\<close> of every row of \<open>r\<close> is set to
    the value just read minus 1, at least 0.

  In each case the rows written are overwritten whatever they held; all other rows are
  untouched.
\<close>

theorem settlement_writes_unconditionally:
  "fst (handleTip e r a (set_wallets ws w)) = fst (handleTip e r a w)
   \<and> fst (handleBuyTicket e r (set_wallets ws w)) = fst (handleBuyTicket e r w)
   \<and> fst (handleSellTicket e r (set_wallets ws w)) = fst (handleSellTicket e r w)
   \<and> (currentWalletAddress (cl w) = Some s \<and> fst (handleTip e r a w) = Ok \<longrightarrow>
        wallets (db (snd (handleTip e r a w))) =
          upsert_wallet (holding_default e) r
            (js_add (case single (filter (\<lambda>x. w_wallet_address x = r) (wallets (db w))) of
                       Inr x \<Rightarrow> gor_balance x | Inl _ \<Rightarrow> 0) a)
            (update_rows (\<lambda>x. w_wallet_address x = s)
               (\<lambda>x. x\<lparr>gor_balance := js_sub (gor_balance (walletData (cl w))) a\<rparr>)
               (wallets (db w))))
   \<and> (currentWalletAddress (cl w) = Some s \<and> fst (handleBuyTicket e r w) = Ok \<longrightarrow>
        (\<exists>pt. select_single False (\<lambda>p. p_wallet_address p = r) (profiles (db w)) = Inr pt
           \<and> wallets (db (snd (handleBuyTicket e r w))) =
               update_rows (\<lambda>x. w_wallet_address x = s)
                 (\<lambda>x. x\<lparr>gor_balance := js_sub (gor_balance (walletData (cl w))) 1,
                         tickets_holding :=
                           (case findIndex (\<lambda>k. t_wallet_address k = r)
                                   (tickets_holding (walletData (cl w))) of
                              Some i \<Rightarrow>
                                (tickets_holding (walletData (cl w)))
                                  [i := (tickets_holding (walletData (cl w)) ! i)
                                     \<lparr>count := js_add (count (tickets_holding (walletData (cl w)) ! i)) 1\<rparr>]
                            | None \<Rightarrow>
                                tickets_holding (walletData (cl w)) @
                                  [\<lparr>t_wallet_address = r, count = 1, t_username = username pt\<rparr>])\<rparr>)
                 (wallets (db w))
           \<and> profiles (db (snd (handleBuyTicket e r w))) =
               update_rows (\<lambda>p. p_wallet_address p = r)
                 (\<lambda>p. p\<lparr>tickets_earned := js_add (tickets_earned pt) 1\<rparr>) (profiles (db w))))
   \<and> (currentWalletAddress (cl w) = Some s \<and> fst (handleSellTicket e r w) = Ok \<longrightarrow>
        (\<exists>i pt. findIndex (\<lambda>k. t_wallet_address k = r) (tickets_holding (walletData (cl w))) = Some i
           \<and> select_single False (\<lambda>p. p_wallet_address p = r) (profiles (db w)) = Inr pt
           \<and> wallets (db (snd (handleSellTicket e r w))) =
               update_rows (\<lambda>x. w_wallet_address x = s)
                 (\<lambda>x. x\<lparr>gor_balance := js_add (gor_balance (walletData (cl w))) 1,
                         tickets_holding :=
                           (let holding = tickets_holding (walletData (cl w));
                                decremented = holding[i := (holding ! i)
                                                 \<lparr>count := js_sub (count (holding ! i)) 1\<rparr>]
                            in if count (decremented ! i) = 0 then splice1 i decremented
                               else decremented)\<rparr>)
                 (wallets (db w))
           \<and> profiles (db (snd (handleSellTicket e r w))) =
               update_rows (\<lambda>p. p_wallet_address p = r)
                 (\<lambda>p. p\<lparr>tickets_earned := max 0 (js_sub (tickets_earned pt) 1)\<rparr>)
                 (profiles (db w))))"
proof (intro conjI impI)
  show "fst (handleTip e r a (set_wallets ws w)) = fst (handleTip e r a w)"
    by (rule tip_outcome_ignores_wallets)
  show "fst (handleBuyTicket e r (set_wallets ws w)) = fst (handleBuyTicket e r w)"
    by (rule buy_outcome_ignores_wallets)
  show "fst (handleSellTicket e r (set_wallets ws w)) = fst (handleSellTicket e r w)"
    by (rule sell_outcome_ignores_wallets)
next
  assume "currentWalletAddress (cl w) = Some s \<and> fst (handleTip e r a w) = Ok"
  then show "wallets (db (snd (handleTip e r a w))) =
          upsert_wallet (holding_default e) r
            (js_add (case single (filter (\<lambda>x. w_wallet_address x = r) (wallets (db w))) of
                       Inr x \<Rightarrow> gor_balance x | Inl _ \<Rightarrow> 0) a)
            (update_rows (\<lambda>x. w_wallet_address x = s)
               (\<lambda>x. x\<lparr>gor_balance := js_sub (gor_balance (walletData (cl w))) a\<rparr>)
               (wallets (db w)))"
    by (intro tip_writes) simp_all
next
  assume "currentWalletAddress (cl w) = Some s \<and> fst (handleBuyTicket e r w) = Ok"
  then have "currentWalletAddress (cl w) = Some s" "fst (handleBuyTicket e r w) = Ok" by simp_all
  then show "\<exists>pt. select_single False (\<lambda>p. p_wallet_address p = r) (profiles (db w)) = Inr pt
           \<and> wallets (db (snd (handleBuyTicket e r w))) =
               update_rows (\<lambda>x. w_wallet_address x = s)
                 (\<lambda>x. x\<lparr>gor_balance := js_sub (gor_balance (walletData (cl w))) 1,
                         tickets_holding :=
                           (case findIndex (\<lambda>k. t_wallet_address k = r)
                                   (tickets_holding (walletData (cl w))) of
                              Some i \<Rightarrow>
                                (tickets_holding (walletData (cl w)))
                                  [i := (tickets_holding (walletData (cl w)) ! i)
                                     \<lparr>count := js_add (count (tickets_holding (walletData (cl w)) ! i)) 1\<rparr>]
                            | None \<Rightarrow>
                                tickets_holding (walletData (cl w)) @
                                  [\<lparr>t_wallet_address = r, count = 1, t_username = username pt\<rparr>])\<rparr>)
                 (wallets (db w))
           \<and> profiles (db (snd (handleBuyTicket e r w))) =
               update_rows (\<lambda>p. p_wallet_address p = r)
                 (\<lambda>p. p\<lparr>tickets_earned := js_add (tickets_earned pt) 1\<rparr>) (profiles (db w))"
    by (rule buy_writes)
next
  assume "currentWalletAddress (cl w) = Some s \<and> fst (handleSellTicket e r w) = Ok"
  then have "currentWalletAddress (cl w) = Some s" "fst (handleSellTicket e r w) = Ok" by simp_all
  then show "\<exists>i pt. findIndex (\<lambda>k. t_wallet_address k = r) (tickets_holding (walletData (cl w))) = Some i
           \<and> select_single False (\<lambda>p. p_wallet_address p = r) (profiles (db w)) = Inr pt
           \<and> wallets (db (snd (handleSellTicket e r w))) =
               update_rows (\<lambda>x. w_wallet_address x = s)
                 (\<lambda>x. x\<lparr>gor_balance := js_add (gor_balance (walletData (cl w))) 1,
                         tickets_holding :=
                           (let holding = tickets_holding (walletData (cl w));
                                decremented = holding[i := (holding ! i)
                                                 \<lparr>count := js_sub (count (holding ! i)) 1\<rparr>]
                            in if count (decremented ! i) = 0 then splice1 i decremented
                               else decremented)\<rparr>)
                 (wallets (db w))
           \<and> profiles (db (snd (handleSellTicket e r w))) =
               update_rows (\<lambda>p. p_wallet_address p = r)
                 (\<lambda>p. p\<lparr>tickets_earned := max 0 (js_sub (tickets_earned pt) 1)\<rparr>)
                 (profiles (db w))"
    by (rule sell_writes)
qed

text \<open>
  Alice's client shows balance 5 and no tickets while the store holds balance 9 and two
  tickets of Bob for her, and balance 7 for Bob. She tips Bob 3: her stored balance
  becomes 2 (her stored holdings stay) and Bob's existing row is overwritten with 10.
  In a store without a row of Bob she buys a ticket of Bob: her stored row is overwritten
  with balance 4 and one ticket. With one ticket of Bob in the cache she sells it: her
  stored row is overwritten with balance 6 and no ticket.
\<close>

theorem settlement_writes_unconditionally_witness:
  "currentWalletAddress (cl (demo_world alice ''Alice_W3'' (wallet_row alice 5 [])
       [wallet_row alice 9 [bob_ticket 2], wallet_row bob 7 []])) = Some alice
   \<and> fst (handleTip (calm Confirmed) bob 3 (demo_world alice ''Alice_W3'' (wallet_row alice 5 [])
       [wallet_row alice 9 [bob_ticket 2], wallet_row bob 7 []])) = Ok
   \<and> wallets (db (snd (handleTip (calm Confirmed) bob 3 (demo_world alice ''Alice_W3''
       (wallet_row alice 5 []) [wallet_row alice 9 [bob_ticket 2], wallet_row bob 7 []]))))
     = [wallet_row alice 2 [bob_ticket 2], wallet_row bob 10 []]
   \<and> currentWalletAddress (cl (demo_world alice ''Alice_W3'' (wallet_row alice 5 [])
       [wallet_row alice 9 [bob_ticket 2]])) = Some alice
   \<and> fst (handleBuyTicket (calm Confirmed) bob (demo_world alice ''Alice_W3'' (wallet_row alice 5 [])
       [wallet_row alice 9 [bob_ticket 2]])) = Ok
   \<and> wallets (db (snd (handleBuyTicket (calm Confirmed) bob (demo_world alice ''Alice_W3''
       (wallet_row alice 5 []) [wallet_row alice 9 [bob_ticket 2]]))))
     = [wallet_row alice 4 [bob_ticket 1]]
   \<and> currentWalletAddress (cl (demo_world alice ''Alice_W3'' (wallet_row alice 5 [bob_ticket 1])
       [wallet_row alice 9 [bob_ticket 2]])) = Some alice
   \<and> fst (handleSellTicket (calm Confirmed) bob (demo_world alice ''Alice_W3''
       (wallet_row alice 5 [bob_ticket 1]) [wallet_row alice 9 [bob_ticket 2]])) = Ok
   \<and> wallets (db (snd (handleSellTicket (calm Confirmed) bob (demo_world alice ''Alice_W3''
       (wallet_row alice 5 [bob_ticket 1]) [wallet_row alice 9 [bob_ticket 2]]))))
     = [wallet_row alice 6 []]"
proof -
  let ?e = "calm Confirmed"
  let ?wt = "demo_world alice ''Alice_W3'' (wallet_row alice 5 [])
               [wallet_row alice 9 [bob_ticket 2], wallet_row bob 7 []]"
  let ?wb = "demo_world alice ''Alice_W3'' (wallet_row alice 5 []) [wallet_row alice 9 [bob_ticket 2]]"
  let ?ws = "demo_world alice ''Alice_W3'' (wallet_row alice 5 [bob_ticket 1])
               [wallet_row alice 9 [bob_ticket 2]]"
  have me: "currentWalletAddress (cl ?wt) = Some alice" "currentWalletAddress (cl ?wb) = Some alice"
    "currentWalletAddress (cl ?ws) = Some alice"
    by (simp_all add: demo_world_def demo_client_def currentWalletAddress_def)
  have tip_ok: "fst (handleTip ?e bob 3 ?wt) = Ok"
    by (simp add: handleTip_def calm_def demo_world_def demo_client_def demo_store_def
        currentWalletAddress_def ledger_transfer_def select_single_def single_def
        update_rows_def wallet_row_def alice_def bob_def Let_def)
  have buy_ok: "fst (handleBuyTicket ?e bob ?wb) = Ok"
    by (simp add: handleBuyTicket_def buy_holding_def calm_def demo_world_def demo_client_def
        demo_store_def currentWalletAddress_def ledger_transfer_def select_single_def single_def
        update_rows_def wallet_row_def bob_ticket_def alice_def bob_def Let_def new_profile_def)
  have sell_ok: "fst (handleSellTicket ?e bob ?ws) = Ok"
    by (simp add: handleSellTicket_def calm_def demo_world_def demo_client_def
        demo_store_def currentWalletAddress_def select_single_def single_def
        wallet_row_def bob_ticket_def alice_def bob_def Let_def new_profile_def)
  note tip = settlement_writes_unconditionally [of ?e bob 3 "[]" ?wt alice,
      THEN conjunct2, THEN conjunct2, THEN conjunct2, THEN conjunct1, THEN mp,
      OF conjI [OF me(1) tip_ok]]
  note buy = settlement_writes_unconditionally [of ?e bob 3 "[]" ?wb alice,
      THEN conjunct2, THEN conjunct2, THEN conjunct2, THEN conjunct2, THEN conjunct1, THEN mp,
      OF conjI [OF me(2) buy_ok]]
  note sell = settlement_writes_unconditionally [of ?e bob 3 "[]" ?ws alice,
      THEN conjunct2, THEN conjunct2, THEN conjunct2, THEN conjunct2, THEN conjunct2, THEN mp,
      OF conjI [OF me(3) sell_ok]]
  have tip_rows: "wallets (db (snd (handleTip ?e bob 3 ?wt)))
      = [wallet_row alice 2 [bob_ticket 2], wallet_row bob 10 []]"
    unfolding tip
    by (simp add: calm_def demo_world_def demo_client_def demo_store_def single_def
        update_rows_def upsert_wallet_def wallet_row_def alice_def bob_def
        js_add_exact js_sub_exact)
  from buy obtain pt where
    pt: "select_single False (\<lambda>p. p_wallet_address p = bob) (profiles (db ?wb)) = Inr pt"
    and rows: "wallets (db (snd (handleBuyTicket ?e bob ?wb))) =
       update_rows (\<lambda>x. w_wallet_address x = alice)
         (\<lambda>x. x\<lparr>gor_balance := js_sub (gor_balance (walletData (cl ?wb))) 1,
                 tickets_holding :=
                   (case findIndex (\<lambda>k. t_wallet_address k = bob)
                           (tickets_holding (walletData (cl ?wb))) of
                      Some i \<Rightarrow>
                        (tickets_holding (walletData (cl ?wb)))
                          [i := (tickets_holding (walletData (cl ?wb)) ! i)
                             \<lparr>count := js_add (count (tickets_holding (walletData (cl ?wb)) ! i)) 1\<rparr>]
                    | None \<Rightarrow>
                        tickets_holding (walletData (cl ?wb)) @
                          [\<lparr>t_wallet_address = bob, count = 1, t_username = username pt\<rparr>])\<rparr>)
         (wallets (db ?wb))"
    by blast
  from pt have pt': "pt = new_profile bob ''Bob_Chain''"
    by (simp add: select_single_def single_def demo_world_def demo_store_def new_profile_def
        alice_def bob_def)
  have buy_rows: "wallets (db (snd (handleBuyTicket ?e bob ?wb))) = [wallet_row alice 4 [bob_ticket 1]]"
    unfolding rows pt'
    by (simp add: demo_world_def demo_client_def demo_store_def update_rows_def wallet_row_def
        bob_ticket_def new_profile_def js_sub_exact)
  from sell obtain i where
    i: "findIndex (\<lambda>k. t_wallet_address k = bob) (tickets_holding (walletData (cl ?ws))) = Some i"
    and rows2: "wallets (db (snd (handleSellTicket ?e bob ?ws))) =
       update_rows (\<lambda>x. w_wallet_address x = alice)
         (\<lambda>x. x\<lparr>gor_balance := js_add (gor_balance (walletData (cl ?ws))) 1,
                 tickets_holding :=
                   (let holding = tickets_holding (walletData (cl ?ws));
                        decremented = holding[i := (holding ! i)
                                         \<lparr>count := js_sub (count (holding ! i)) 1\<rparr>]
                    in if count (decremented ! i) = 0 then splice1 i decremented
                       else decremented)\<rparr>)
         (wallets (db ?ws))"
    by blast
  from i have i0: "i = 0"
    by (simp add: demo_world_def demo_client_def wallet_row_def bob_ticket_def)
  have sell_rows: "wallets (db (snd (handleSellTicket ?e bob ?ws))) = [wallet_row alice 6 []]"
    unfolding rows2 i0
    by (simp add: demo_world_def demo_client_def demo_store_def update_rows_def wallet_row_def
        bob_ticket_def splice1_def Let_def js_add_exact js_sub_exact)
  show ?thesis
    by (intro conjI me tip_ok tip_rows buy_ok buy_rows sell_ok sell_rows)
qed

text \<open>
  The stored record (balance 10, three tickets of Bob) differs from the record the client
  last observed (balance 5, one ticket). Selling the ticket succeeds all the same, with no
  stale-update error, and replaces the stored record by balance 6 and no tickets.
\<close>

theorem settlement_writes_unconditionally_counterexample:
  "stored_wallet (db (demo_world alice ''Alice_W3'' (wallet_row alice 5 [bob_ticket 1])
       [wallet_row alice 10 [bob_ticket 3]])) alice = Some (wallet_row alice 10 [bob_ticket 3])
   \<and> walletData (cl (demo_world alice ''Alice_W3'' (wallet_row alice 5 [bob_ticket 1])
       [wallet_row alice 10 [bob_ticket 3]])) = wallet_row alice 5 [bob_ticket 1]
   \<and> wallet_row alice 10 [bob_ticket 3] \<noteq> wallet_row alice 5 [bob_ticket 1]
   \<and> fst (handleSellTicket (calm Confirmed) bob (demo_world alice ''Alice_W3''
       (wallet_row alice 5 [bob_ticket 1]) [wallet_row alice 10 [bob_ticket 3]])) = Ok
   \<and> stored_wallet (db (snd (handleSellTicket (calm Confirmed) bob (demo_world alice ''Alice_W3''
       (wallet_row alice 5 [bob_ticket 1]) [wallet_row alice 10 [bob_ticket 3]])))) alice
     = Some (wallet_row alice 6 [])"
proof -
  let ?w = "demo_world alice ''Alice_W3'' (wallet_row alice 5 [bob_ticket 1])
              [wallet_row alice 10 [bob_ticket 3]]"
  have before: "wallets (db ?w) = [wallet_row alice 10 [bob_ticket 3]]"
    "walletData (cl ?w) = wallet_row alice 5 [bob_ticket 1]"
    by (simp_all add: demo_world_def demo_store_def demo_client_def)
  have sell: "fst (handleSellTicket (calm Confirmed) bob ?w) = Ok"
    "wallets (db (snd (handleSellTicket (calm Confirmed) bob ?w))) = [wallet_row alice 6 []]"
    by (simp_all add: handleSellTicket_def calm_def demo_world_def demo_client_def
        demo_store_def currentWalletAddress_def select_single_def single_def splice1_def
        update_rows_def wallet_row_def bob_ticket_def alice_def bob_def Let_def new_profile_def
        js_add_exact js_sub_exact)
  have "stored_wallet (db ?w) alice = Some (wallet_row alice 10 [bob_ticket 3])"
    unfolding stored_wallet_def before by (simp add: wallet_row_def)
  moreover have "stored_wallet (db (snd (handleSellTicket (calm Confirmed) bob ?w))) alice
      = Some (wallet_row alice 6 [])"
    unfolding stored_wallet_def sell by (simp add: wallet_row_def)
  moreover have "wallet_row alice 10 [bob_ticket 3] \<noteq> wallet_row alice 5 [bob_ticket 1]"
    by (simp add: wallet_row_def)
  ultimately show ?thesis using before(2) sell(1) by simp
qed

section \<open>Buying a ticket and selling it again\<close>




lemma single_Inr: "single rows = Inr x \<Longrightarrow> rows = [x]"
  by (auto simp: single_def split: list.splits)

lemma filter_single_unique:
  assumes "filter p rows = [x]" and "r \<in> set rows" and "p r"
  shows "r = x"
proof -
  from assms(2,3) have "r \<in> set (filter p rows)" by simp
  then show ?thesis unfolding assms(1) by simp
qed







lemma keyed_rows_unique:
  assumes "distinct (map w_wallet_address rows)"
    and "find (\<lambda>r. w_wallet_address r = a) rows = Some x"
    and "r \<in> set rows" and "w_wallet_address r = a"
  shows "r = x"
proof -
  from single_filter_keyed [OF assms(1), of a] assms(2)
  have "single (filter (\<lambda>r. w_wallet_address r = a) rows) = Inr x" by simp
  then have "filter (\<lambda>r. w_wallet_address r = a) rows = [x]" by (rule single_Inr)
  from filter_single_unique [OF this assms(3)] assms(4) show ?thesis by simp
qed





text \<open>
  The bound is needed. Alice holds \<open>2 ^ 53 + 2\<close>, cache up to date. The purchase stores
  \<open>2 ^ 53\<close> (\<^verbatim>\<open>2 ** 53 + 2 - 1\<close> is \<^verbatim>\<open>2 ** 53\<close>), and after the refresh the sale stores
  \<open>2 ^ 53\<close> again: the balance is 2 below its pre-buy value.
\<close>

lemma buy_sell_rounds_above_2_53:
  "stored_wallet (db (demo_world alice ''Alice_W3'' (wallet_row alice 9007199254740994 [])
       [wallet_row alice 9007199254740994 []])) alice
     = Some (walletData (cl (demo_world alice ''Alice_W3'' (wallet_row alice 9007199254740994 [])
       [wallet_row alice 9007199254740994 []])))
   \<and> mirrored_balance (db (demo_world alice ''Alice_W3'' (wallet_row alice 9007199254740994 [])
       [wallet_row alice 9007199254740994 []])) alice = 9007199254740994
   \<and> fst (handleBuyTicket (calm Confirmed) bob
       (demo_world alice ''Alice_W3'' (wallet_row alice 9007199254740994 [])
         [wallet_row alice 9007199254740994 []])) = Ok
   \<and> wallets (db (snd (handleBuyTicket (calm Confirmed) bob
       (demo_world alice ''Alice_W3'' (wallet_row alice 9007199254740994 [])
         [wallet_row alice 9007199254740994 []]))))
     = [wallet_row alice 9007199254740992 [bob_ticket 1]]
   \<and> fst (fetchWalletData (calm Confirmed) (snd (handleBuyTicket (calm Confirmed) bob
       (demo_world alice ''Alice_W3'' (wallet_row alice 9007199254740994 [])
         [wallet_row alice 9007199254740994 []])))) = Ok
   \<and> fst (handleSellTicket (calm Confirmed) bob (snd (fetchWalletData (calm Confirmed)
       (snd (handleBuyTicket (calm Confirmed) bob
         (demo_world alice ''Alice_W3'' (wallet_row alice 9007199254740994 [])
           [wallet_row alice 9007199254740994 []])))))) = Ok
   \<and> mirrored_balance (db (snd (handleSellTicket (calm Confirmed) bob (snd (fetchWalletData
       (calm Confirmed) (snd (handleBuyTicket (calm Confirmed) bob
         (demo_world alice ''Alice_W3'' (wallet_row alice 9007199254740994 [])
           [wallet_row alice 9007199254740994 []])))))))) alice = 9007199254740992"
proof -
  let ?w = "demo_world alice ''Alice_W3'' (wallet_row alice 9007199254740994 [])
              [wallet_row alice 9007199254740994 []]"
  let ?e = "calm Confirmed"
  let ?w1 = "snd (handleBuyTicket ?e bob ?w)"
  let ?w2 = "snd (fetchWalletData ?e ?w1)"
  have one: "js_add 0 1 = 1" "js_sub 1 1 = 0" by (simp_all add: js_add_exact js_sub_exact)
  have before: "stored_wallet (db ?w) alice = Some (walletData (cl ?w))"
    "mirrored_balance (db ?w) alice = 9007199254740994"
    by (simp_all add: mirrored_balance_def stored_wallet_def demo_world_def demo_store_def
        demo_client_def wallet_row_def)
  have buy: "handleBuyTicket ?e bob ?w =
      (Ok, insert_notification False
             \<lparr>recipient_address = bob, n_type = Ticket_buy,
               message = ''Alice_W3 bought a ticket for you!'', n_post_id = None,
               sender_address = alice, read_flag = False\<rparr>
             (set_profiles [new_profile alice ''Alice_W3'',
                            (new_profile bob ''Bob_Chain'')\<lparr>tickets_earned := 1\<rparr>]
               (set_wallets [wallet_row alice 9007199254740992 [bob_ticket 1]]
                 (?w\<lparr>ledger_log := [\<lparr>tr_source = alice, tr_destination = bob, tr_amount = 1\<rparr>]\<rparr>))))"
    by (simp add: handleBuyTicket_def buy_holding_def calm_def demo_world_def demo_client_def
        demo_store_def currentWalletAddress_def ledger_transfer_def select_single_def single_def
        update_rows_def wallet_row_def bob_ticket_def alice_def bob_def Let_def new_profile_def
        display_name_def set_wallets_def set_profiles_def insert_notification_def
        one js_steps_above_2_53)
  have buy_ok: "fst (handleBuyTicket ?e bob ?w) = Ok"
    and buy_rows: "wallets (db ?w1) = [wallet_row alice 9007199254740992 [bob_ticket 1]]"
    unfolding buy by simp_all
  have refresh: "fst (fetchWalletData ?e ?w1) = Ok"
    unfolding buy
    by (simp add: fetchWalletData_def calm_def demo_world_def demo_client_def
        currentWalletAddress_def select_single_def single_def wallet_row_def)
  have w2: "?w2 = ?w1\<lparr>cl := (cl ?w1)\<lparr>walletData := wallet_row alice 9007199254740992 [bob_ticket 1]\<rparr>\<rparr>"
    unfolding buy
    by (simp add: fetchWalletData_def calm_def demo_world_def demo_client_def
        currentWalletAddress_def select_single_def single_def wallet_row_def)
  have sell: "fst (handleSellTicket ?e bob ?w2) = Ok"
    "wallets (db (snd (handleSellTicket ?e bob ?w2))) = [wallet_row alice 9007199254740992 []]"
    unfolding w2 unfolding buy
    by (simp_all add: handleSellTicket_def calm_def demo_world_def demo_client_def demo_store_def
        currentWalletAddress_def select_single_def single_def wallet_row_def bob_ticket_def
        alice_def bob_def Let_def new_profile_def update_rows_def splice1_def
        set_wallets_def set_profiles_def insert_notification_def
        one js_steps_above_2_53)
  have after: "mirrored_balance (db (snd (handleSellTicket ?e bob ?w2))) alice = 9007199254740992"
    unfolding mirrored_balance_def stored_wallet_def sell by (simp add: wallet_row_def)
  show ?thesis
    by (intro conjI before buy_ok buy_rows refresh sell(1) after)
qed

section \<open>Like and repost counters\<close>

lemma post_counts_ok_card:
  "post_counts_ok p \<Longrightarrow>
     likes_count p = int (card (set (likes p))) \<and> reposts_count p = int (card (set (reposts p)))"
  by (simp add: post_counts_ok_def distinct_card)

lemma filter_absent: "x \<notin> set xs \<Longrightarrow> filter (\<lambda>a. a \<noteq> x) xs = xs"
  by (induction xs) auto

lemma length_filter_remove:
  "distinct xs \<Longrightarrow> x \<in> set xs \<Longrightarrow> length (filter (\<lambda>a. a \<noteq> x) xs) = length xs - 1"
proof (induction xs)
  case Nil
  then show ?case by simp
next
  case (Cons y ys)
  show ?case
  proof (cases "y = x")
    case True
    with Cons.prems have "x \<notin> set ys" by simp
    with True show ?thesis by (simp add: filter_absent)
  next
    case False
    with Cons.prems have m: "x \<in> set ys" "distinct ys" by auto
    then have "0 < length ys" by (cases ys) auto
    with Cons.IH [OF m(2) m(1)] False show ?thesis by simp
  qed
qed

text \<open>
  Reposting keeps the counters of every post in step with its lists (of fewer than
  \<open>2 ^ 53\<close> addresses, so that the counter is counted exactly).
\<close>

lemma repost_posts_cases:
  "posts (db (snd (handleRepost e postId w))) = posts (db w) \<or>
   (\<exists>me postData.
      select_single (fault e 0) (\<lambda>p. id_post p = postId) (posts (db w)) = Inr postData \<and>
      me \<notin> set (reposts postData) \<and>
      posts (db (snd (handleRepost e postId w))) =
        update_rows (\<lambda>p. id_post p = postId)
          (\<lambda>p. p\<lparr>reposts := reposts postData @ [me], reposts_count := js_add (reposts_count postData) 1\<rparr>)
          (posts (db w)))"
proof (cases "currentWalletAddress (cl w)")
  case None
  then show ?thesis by (simp add: handleRepost_def)
next
  case me: (Some me)
  show ?thesis
  proof (cases "currentUserProfile (cl w)")
    case None
    with me show ?thesis by (simp add: handleRepost_def)
  next
    case pr: (Some prof)
    show ?thesis
    proof (cases "select_single (fault e 0) (\<lambda>p. id_post p = postId) (posts (db w))")
      case (Inl err)
      with me pr show ?thesis by (simp add: handleRepost_def)
    next
      case rd: (Inr postData)
      show ?thesis
      proof (cases "me \<in> set (reposts postData) \<or> fault e 1")
        case True
        with me pr rd have "posts (db (snd (handleRepost e postId w))) = posts (db w)"
          by (auto simp add: handleRepost_def)
        then show ?thesis ..
      next
        case False
        with me pr rd have "posts (db (snd (handleRepost e postId w))) =
            update_rows (\<lambda>p. id_post p = postId)
              (\<lambda>p. p\<lparr>reposts := reposts postData @ [me],
                      reposts_count := js_add (reposts_count postData) 1\<rparr>) (posts (db w))"
          by (simp add: handleRepost_def Let_def)
        with rd False show ?thesis by blast
      qed
    qed
  qed
qed

lemma repost_keeps_counts:
  assumes inv: "\<forall>p \<in> set (posts (db w)). post_counts_ok p"
    and small: "\<forall>p \<in> set (posts (db w)). length (reposts p) < 2 ^ 53"
  shows "\<forall>p \<in> set (posts (db (snd (handleRepost e postId w)))). post_counts_ok p"
  using repost_posts_cases [of e postId w]
proof (elim disjE exE conjE)
  assume "posts (db (snd (handleRepost e postId w))) = posts (db w)"
  with inv show ?thesis by simp
next
  fix me postData
  assume rd: "select_single (fault e 0) (\<lambda>p. id_post p = postId) (posts (db w)) = Inr postData"
    and new: "me \<notin> set (reposts postData)"
    and res: "posts (db (snd (handleRepost e postId w))) =
        update_rows (\<lambda>p. id_post p = postId)
          (\<lambda>p. p\<lparr>reposts := reposts postData @ [me], reposts_count := js_add (reposts_count postData) 1\<rparr>)
          (posts (db w))"
  from select_single_mem [OF rd] inv small have pd: "post_counts_ok postData"
    and sm: "length (reposts postData) < 2 ^ 53" by blast+
  from pd sm have "\<bar>reposts_count postData + 1\<bar> \<le> 2 ^ 53" by (simp add: post_counts_ok_def)
  then have ex: "js_add (reposts_count postData) 1 = reposts_count postData + 1"
    by (rule js_add_exact)
  show ?thesis
    unfolding res ex
  proof (rule update_rows_Ball)
    fix r assume "r \<in> set (posts (db w))" "id_post r = postId"
    with inv have "post_counts_ok r" by blast
    with pd new show "post_counts_ok
        (r\<lparr>reposts := reposts postData @ [me], reposts_count := reposts_count postData + 1\<rparr>)"
      by (simp add: post_counts_ok_def)
  next
    fix r assume "r \<in> set (posts (db w))"
    with inv show "post_counts_ok r" by blast
  qed
qed

text \<open>
  So does liking or unliking (under the same bound), as long as the flag the caller
  passes tells whether the acting address is in the stored likes list.
\<close>

lemma like_posts_cases:
  assumes me: "currentWalletAddress (cl w) = Some me"
  shows "posts (db (snd (handleLike e postId isCurrentlyLiked w))) = posts (db w) \<or>
   (\<exists>postData.
      select_single (fault e 0) (\<lambda>p. id_post p = postId) (posts (db w)) = Inr postData \<and>
      posts (db (snd (handleLike e postId isCurrentlyLiked w))) =
        update_rows (\<lambda>p. id_post p = postId)
          (\<lambda>p. p\<lparr>likes := (if isCurrentlyLiked
                              then filter (\<lambda>addr. addr \<noteq> me) (likes postData)
                              else likes postData @ [me]),
                   likes_count := (if isCurrentlyLiked then max 0 (js_sub (likes_count postData) 1)
                                   else js_add (likes_count postData) 1)\<rparr>)
          (posts (db w)))"
proof (cases "select_single (fault e 0) (\<lambda>p. id_post p = postId) (posts (db w))")
  case (Inl err)
  with me show ?thesis by (simp add: handleLike_def)
next
  case rd: (Inr postData)
  show ?thesis
  proof (cases "fault e 1")
    case True
    with me rd show ?thesis by (simp add: handleLike_def Let_def)
  next
    case False
    with me rd have "posts (db (snd (handleLike e postId isCurrentlyLiked w))) =
        update_rows (\<lambda>p. id_post p = postId)
          (\<lambda>p. p\<lparr>likes := (if isCurrentlyLiked
                              then filter (\<lambda>addr. addr \<noteq> me) (likes postData)
                              else likes postData @ [me]),
                   likes_count := (if isCurrentlyLiked then max 0 (js_sub (likes_count postData) 1)
                                   else js_add (likes_count postData) 1)\<rparr>)
          (posts (db w))"
      by (simp add: handleLike_def Let_def)
    with rd show ?thesis by blast
  qed
qed

lemma like_keeps_counts_when_flag_right:
  assumes inv: "\<forall>p \<in> set (posts (db w)). post_counts_ok p"
    and small: "\<forall>p \<in> set (posts (db w)). length (likes p) < 2 ^ 53"
    and me: "currentWalletAddress (cl w) = Some me"
    and flag: "\<forall>p \<in> set (posts (db w)). id_post p = postId \<longrightarrow> isCurrentlyLiked = (me \<in> set (likes p))"
  shows "\<forall>p \<in> set (posts (db (snd (handleLike e postId isCurrentlyLiked w)))). post_counts_ok p"
  using like_posts_cases [OF me, of e postId isCurrentlyLiked]
proof (elim disjE exE conjE)
  assume "posts (db (snd (handleLike e postId isCurrentlyLiked w))) = posts (db w)"
  with inv show ?thesis by simp
next
  fix postData :: post
  let ?likes = "if isCurrentlyLiked then filter (\<lambda>addr. addr \<noteq> me) (likes postData)
                else likes postData @ [me]"
  let ?n = "if isCurrentlyLiked then max 0 (js_sub (likes_count postData) 1) else js_add (likes_count postData) 1"
  assume rd: "select_single (fault e 0) (\<lambda>p. id_post p = postId) (posts (db w)) = Inr postData"
    and res: "posts (db (snd (handleLike e postId isCurrentlyLiked w))) =
      update_rows (\<lambda>p. id_post p = postId) (\<lambda>p. p\<lparr>likes := ?likes, likes_count := ?n\<rparr>)
        (posts (db w))"
  from select_single_mem [OF rd] inv flag small
  have pd: "post_counts_ok postData" and fl: "isCurrentlyLiked = (me \<in> set (likes postData))"
    and sm: "length (likes postData) < 2 ^ 53"
    by blast+
  from pd sm have b: "\<bar>likes_count postData + 1\<bar> \<le> 2 ^ 53" "\<bar>likes_count postData - 1\<bar> \<le> 2 ^ 53"
    by (simp_all add: post_counts_ok_def)
  have nn: "?n = (if isCurrentlyLiked then max 0 (likes_count postData - 1)
                  else likes_count postData + 1)"
    by (simp only: js_add_exact [OF b(1)] js_sub_exact [OF b(2)])
  have "distinct ?likes \<and>
      (if isCurrentlyLiked then max 0 (likes_count postData - 1) else likes_count postData + 1)
        = int (length ?likes)"
  proof (cases isCurrentlyLiked)
    case True
    with fl have m: "me \<in> set (likes postData)" by simp
    with pd have f: "length (filter (\<lambda>a. a \<noteq> me) (likes postData)) = length (likes postData) - 1"
      and d: "distinct (likes postData)"
      and c: "likes_count postData = int (length (likes postData))"
      by (auto simp: post_counts_ok_def length_filter_remove)
    from m obtain n where n: "length (likes postData) = Suc n"
      by (cases "likes postData") auto
    from True f d c n show ?thesis by simp
  next
    case False
    with fl pd show ?thesis by (simp add: post_counts_ok_def)
  qed
  then have new: "distinct ?likes \<and> ?n = int (length ?likes)" unfolding nn .
  show ?thesis
    unfolding res
  proof (rule update_rows_Ball)
    fix r assume "r \<in> set (posts (db w))" "id_post r = postId"
    with inv have "post_counts_ok r" by blast
    with new show "post_counts_ok (r\<lparr>likes := ?likes, likes_count := ?n\<rparr>)"
      by (simp add: post_counts_ok_def)
  next
    fix r assume "r \<in> set (posts (db w))"
    with inv show "post_counts_ok r" by blast
  qed
qed

text \<open>
  Claim C4 does not hold of the code. \<^verbatim>\<open>handleLike\<close> reads the likes list from the
  store but takes the decision between like and unlike from the flag of its caller, and
  appends without testing membership (as \<^verbatim>\<open>handleRepost\<close> does). Bob likes Alice's post
  twice before his client has refetched the post, so both calls carry the flag
  \<^verbatim>\<open>false\<close>: the post ends with likes \<^verbatim>\<open>[bob, bob]\<close> and \<^verbatim>\<open>likes_count\<close> 2, while the
  likes set has one element.
\<close>

theorem double_like_breaks_count:
  "map (\<lambda>p. (likes p, likes_count p, card (set (likes p))))
     (posts (db (snd (handleLike (calm Confirmed) 1 False
        (snd (handleLike (calm Confirmed) 1 False
           (demo_world bob ''Bob_Chain'' (wallet_row bob 0 []) [])))))))
   = [([bob, bob], 2, 1)]"
proof -
  let ?w = "demo_world bob ''Bob_Chain'' (wallet_row bob 0 []) []"
  have first: "handleLike (calm Confirmed) 1 False ?w =
      (Ok, set_posts [hello_post\<lparr>likes := [bob], likes_count := 1\<rparr>] ?w)"
    by (simp add: handleLike_def calm_def demo_world_def demo_client_def demo_store_def
        currentWalletAddress_def select_single_def single_def hello_post_def update_rows_def
        Let_def
        js_add_exact js_sub_exact)
  have second: "posts (db (snd (handleLike (calm Confirmed) 1 False
        (set_posts [hello_post\<lparr>likes := [bob], likes_count := 1\<rparr>] ?w))))
      = [hello_post\<lparr>likes := [bob, bob], likes_count := 2\<rparr>]"
    by (simp add: handleLike_def calm_def demo_world_def demo_client_def demo_store_def
        currentWalletAddress_def select_single_def single_def hello_post_def update_rows_def
        Let_def set_posts_def
        js_add_exact js_sub_exact)
  show ?thesis unfolding first snd_conv second by simp
qed

end
